theory Spec2Isabelle
  imports Complex_Main "HOL-Library.Multiset"
begin

section \<open>Review classification with active learning: the data splits\<close>

text \<open>
  The notebook keeps the corpus in two parallel arrays, \<^verbatim>\<open>reviews\<close> and \<^verbatim>\<open>labels\<close>,
  cuts both with the same index ranges and zips them again with
  \<^verbatim>\<open>tf.data.Dataset.from_tensor_slices((x, y))\<close>. The model keeps every review paired
  with its label, so a corpus is a list of pairs and a dataset is a list of examples.

  Python floats are modelled as exact rationals: the rounding of binary64 arithmetic is
  not part of this development, so a quotient or a product is the exact one where
  Python's is the nearest double. Counts and sizes are natural numbers.
\<close>

datatype error = ConfigurationError | OSError | ValueError | OverflowError

record 'e partition =
  val_dataset :: "'e list"
  test_dataset :: "'e list"
  train_dataset :: "'e list"
  pool_negatives :: "'e list"
  pool_positives :: "'e list"

text \<open>
  \<^verbatim>\<open>xs[lo:hi]\<close> and \<^verbatim>\<open>xs[lo:]\<close> for bounds that are not negative. Basic slicing of a
  numpy array clamps a bound beyond the end of the array and never raises.
\<close>

definition py_slice :: "nat \<Rightarrow> nat \<Rightarrow> 'a list \<Rightarrow> 'a list" where
  "py_slice lo hi xs = take (hi - lo) (drop lo xs)"

definition py_slice_from :: "nat \<Rightarrow> 'a list \<Rightarrow> 'a list" where
  "py_slice_from lo xs = drop lo xs"

text \<open>\<^verbatim>\<open>reviews[labels == 1]\<close> with \<^verbatim>\<open>labels[labels == 1]\<close>, and the same for label 0.\<close>

definition positives :: "('a \<times> int) list \<Rightarrow> ('a \<times> int) list" where
  "positives corpus = filter (\<lambda>e. snd e = 1) corpus"

definition negatives :: "('a \<times> int) list \<Rightarrow> ('a \<times> int) list" where
  "negatives corpus = filter (\<lambda>e. snd e = 0) corpus"

text \<open>
  The module-level split (the notebook sets \<^verbatim>\<open>val_split = 2500\<close>,
  \<^verbatim>\<open>test_split = 2500\<close>, \<^verbatim>\<open>train_split = 7500\<close>). The source has no check of the
  class sizes and no \<^verbatim>\<open>raise\<close>: every path returns the five datasets.
\<close>

definition split_corpus ::
  "nat \<Rightarrow> nat \<Rightarrow> nat \<Rightarrow> ('a \<times> int) list \<Rightarrow> error + ('a \<times> int) partition" where
  "split_corpus val_split test_split train_split corpus =
     (let p = positives corpus; n = negatives corpus in
      Inr \<lparr>val_dataset = py_slice 0 val_split p @ py_slice 0 val_split n,
           test_dataset =
             py_slice val_split (val_split + test_split) p
             @ py_slice val_split (val_split + test_split) n,
           train_dataset =
             py_slice (val_split + test_split) (val_split + test_split + train_split) p
             @ py_slice (val_split + test_split) (val_split + test_split + train_split) n,
           pool_negatives = py_slice_from (val_split + test_split + train_split) n,
           pool_positives = py_slice_from (val_split + test_split + train_split) p\<rparr>)"

section \<open>The sampling arithmetic\<close>

text \<open>
  \<^verbatim>\<open>false_negatives\<close> and \<^verbatim>\<open>false_positives\<close> are counts returned by
  \<^verbatim>\<open>model.evaluate\<close>. The result is the pair
  \<^verbatim>\<open>(sample_ratio_ones, sample_ratio_zeros)\<close>.
\<close>

definition sample_ratios :: "nat \<Rightarrow> nat \<Rightarrow> rat \<times> rat" where
  "sample_ratios false_negatives false_positives =
     (if false_negatives \<noteq> 0 \<and> false_positives \<noteq> 0 then
        (let total = false_negatives + false_positives in
         (of_nat false_positives / of_nat total, of_nat false_negatives / of_nat total))
      else (1 / 2, 1 / 2))"

text \<open>Python's \<^verbatim>\<open>int(x)\<close> on a float truncates toward zero.\<close>

definition py_int :: "rat \<Rightarrow> int" where
  "py_int x = (if 0 \<le> x then \<lfloor>x\<rfloor> else \<lceil>x\<rceil>)"

text \<open>\<^verbatim>\<open>int(sample_ratio * sampling_size)\<close>; the sampling size is a count.\<close>

definition sample_count :: "rat \<Rightarrow> nat \<Rightarrow> int" where
  "sample_count sample_ratio sampling_size = py_int (sample_ratio * of_nat sampling_size)"

text \<open>
  \<^verbatim>\<open>Dataset.take(count)\<close> and \<^verbatim>\<open>Dataset.skip(count)\<close>. The count is converted to a
  64-bit integer, which raises for a count outside that range. A negative count, or one
  beyond the size of the dataset, takes (skips) every element.
\<close>

definition int64_max :: int where
  "int64_max = 9223372036854775807"

definition int64_min :: int where
  "int64_min = - 9223372036854775808"

definition ds_take :: "int \<Rightarrow> 'e list \<Rightarrow> error + 'e list" where
  "ds_take n xs =
     (if n < int64_min \<or> int64_max < n then Inl OverflowError
      else if n < 0 then Inr xs
      else Inr (take (nat n) xs))"

definition ds_skip :: "int \<Rightarrow> 'e list \<Rightarrow> error + 'e list" where
  "ds_skip n xs =
     (if n < int64_min \<or> int64_max < n then Inl OverflowError
      else if n < 0 then Inr []
      else Inr (drop (nat n) xs))"

section \<open>The classifier and its callbacks\<close>

text \<open>
  Keras is a collaborator of the notebook. A value of type \<open>'m\<close> is the whole state of a
  model object (weights, optimizer state, random state). The operations the notebook
  calls are the fields of a record:
  \<^item> \<open>create_model\<close>: the freshly built model;
  \<^item> \<open>compile\<close>: \<^verbatim>\<open>model.compile(...)\<close>, which resets the optimizer and keeps the weights;
  \<^item> \<open>train_epoch\<close>: one epoch of \<^verbatim>\<open>model.fit\<close> on the training data, giving the model
    after the epoch with the epoch's \<^verbatim>\<open>loss\<close> and \<^verbatim>\<open>binary_accuracy\<close>;
  \<^item> \<open>validate\<close>: the \<^verbatim>\<open>val_loss\<close> and \<^verbatim>\<open>val_binary_accuracy\<close> of a model on the
    validation data, which \<^verbatim>\<open>fit\<close> computes at the end of every epoch;
  \<^item> \<open>evaluate\<close>: what \<^verbatim>\<open>model.evaluate(test_dataset)\<close> gives on a dataset that is not
    empty: the loss, the accuracy, the false negatives and the false positives.
\<close>

record ('m, 'e) keras =
  create_model :: "'m"
  compile :: "'m \<Rightarrow> 'm"
  train_epoch :: "'e list \<Rightarrow> 'm \<Rightarrow> 'm \<times> rat \<times> rat"
  validate :: "'m \<Rightarrow> 'e list \<Rightarrow> rat \<times> rat"
  evaluate :: "'m \<Rightarrow> 'e list \<Rightarrow> rat \<times> rat \<times> nat \<times> nat"

text \<open>
  \<^verbatim>\<open>ModelCheckpoint("AL_Model.h5", save_best_only=True)\<close>: the callback object keeps the
  best monitored \<^verbatim>\<open>val_loss\<close> it has seen (\<open>None\<close> is the initial infinity) and is never
  reset, since the notebook creates it once and passes the same object to every
  \<^verbatim>\<open>fit\<close>. \<open>saved\<close> is the content of \<^verbatim>\<open>AL_Model.h5\<close> (\<open>None\<close>: no such file).
\<close>

record 'm checkpoint_cb =
  best :: "rat option"
  saved :: "'m option"

definition improves :: "rat \<Rightarrow> rat option \<Rightarrow> bool" where
  "improves current b = (case b of None \<Rightarrow> True | Some v \<Rightarrow> current < v)"

definition checkpoint_on_epoch_end :: "'m \<Rightarrow> rat \<Rightarrow> 'm checkpoint_cb \<Rightarrow> 'm checkpoint_cb" where
  "checkpoint_on_epoch_end m current c =
     (if improves current (best c) then \<lparr>best = Some current, saved = Some m\<rparr> else c)"

text \<open>
  \<^verbatim>\<open>EarlyStopping(patience=4)\<close>: at the start of every \<^verbatim>\<open>fit\<close> the callback forgets
  what it has seen; training stops once \<^verbatim>\<open>val_loss\<close> has not improved for
  \<^verbatim>\<open>patience\<close> epochs in a row.
\<close>

record early_stopping_cb =
  wait :: nat
  es_best :: "rat option"

definition patience :: nat where
  "patience = 4"

definition epochs :: nat where
  "epochs = 20"

definition early_on_train_begin :: early_stopping_cb where
  "early_on_train_begin = \<lparr>wait = 0, es_best = None\<rparr>"

definition early_on_epoch_end :: "rat \<Rightarrow> early_stopping_cb \<Rightarrow> early_stopping_cb" where
  "early_on_epoch_end current e =
     (if improves current (es_best e) then \<lparr>wait = 0, es_best = Some current\<rparr>
      else e\<lparr>wait := wait e + 1\<rparr>)"

text \<open>\<^verbatim>\<open>history.history\<close>: the metrics of one \<^verbatim>\<open>fit\<close>, one entry per epoch.\<close>

record history =
  h_loss :: "rat list"
  h_val_loss :: "rat list"
  h_binary_accuracy :: "rat list"
  h_val_binary_accuracy :: "rat list"

definition empty_history :: history where
  "empty_history =
     \<lparr>h_loss = [], h_val_loss = [], h_binary_accuracy = [], h_val_binary_accuracy = []\<rparr>"

text \<open>
  The epochs of one \<^verbatim>\<open>fit\<close>, the first argument counting the epochs that are left.
  After every epoch the checkpoint callback runs, then the early-stopping callback.
\<close>

fun fit_epochs ::
  "('m, 'e) keras \<Rightarrow> nat \<Rightarrow> 'e list \<Rightarrow> 'e list \<Rightarrow>
   'm \<times> 'm checkpoint_cb \<times> early_stopping_cb \<times> history \<Rightarrow>
   'm \<times> 'm checkpoint_cb \<times> early_stopping_cb \<times> history" where
  "fit_epochs K 0 tr va s = s"
| "fit_epochs K (Suc n) tr va (m, c, e, h) =
     (case train_epoch K tr m of (m', l, a) \<Rightarrow>
      case validate K m' va of (vl, vacc) \<Rightarrow>
        let c' = checkpoint_on_epoch_end m' vl c;
            e' = early_on_epoch_end vl e;
            h' = \<lparr>h_loss = h_loss h @ [l], h_val_loss = h_val_loss h @ [vl],
                  h_binary_accuracy = h_binary_accuracy h @ [a],
                  h_val_binary_accuracy = h_val_binary_accuracy h @ [vacc]\<rparr>
        in if patience \<le> wait e' then (m', c', e', h')
           else fit_epochs K n tr va (m', c', e', h'))"

text \<open>
  \<^verbatim>\<open>model.fit(train, epochs=20, validation_data=val, callbacks=[checkpoint, early_stopping])\<close>
  on data that is not empty: the model after the last epoch that ran, the checkpoint
  callback and the history.
\<close>

definition fit_result ::
  "('m, 'e) keras \<Rightarrow> 'e list \<Rightarrow> 'e list \<Rightarrow> 'm \<Rightarrow> 'm checkpoint_cb \<Rightarrow>
   'm \<times> 'm checkpoint_cb \<times> history" where
  "fit_result K tr va m c =
     (case fit_epochs K epochs tr va (m, c, early_on_train_begin, empty_history) of
        (m', c', e', h) \<Rightarrow> (m', c', h))"

text \<open>Keras raises a \<^verbatim>\<open>ValueError\<close> when the training or the validation data is empty.\<close>

definition fit ::
  "('m, 'e) keras \<Rightarrow> 'e list \<Rightarrow> 'e list \<Rightarrow> 'm \<Rightarrow> 'm checkpoint_cb \<Rightarrow>
   error + 'm \<times> 'm checkpoint_cb \<times> history" where
  "fit K tr va m c =
     (if tr = [] \<or> va = [] then Inl ValueError else Inr (fit_result K tr va m c))"

text \<open>
  \<^verbatim>\<open>model.predict(test_dataset)\<close> and \<^verbatim>\<open>model.evaluate(test_dataset)\<close> raise a
  \<^verbatim>\<open>ValueError\<close> on an empty dataset.
\<close>

definition model_evaluate ::
  "('m, 'e) keras \<Rightarrow> 'm \<Rightarrow> 'e list \<Rightarrow> error + rat \<times> rat \<times> nat \<times> nat" where
  "model_evaluate K m te = (if te = [] then Inl ValueError else Inr (evaluate K m te))"

section \<open>The sampling controller\<close>

text \<open>The lines the function prints, in order.\<close>

datatype msg =
    StartingToTrain nat
  | Rule
  | IncorrectlyClassified nat nat
  | SampleRatio rat rat
  | StartingTraining nat
  | TestSetEvaluation "rat \<times> rat \<times> nat \<times> nat"

text \<open>
  The state of \<^verbatim>\<open>train_active_learning_models\<close>: its five dataset arguments, the local
  variables, the checkpoint callback with its file, and what has been printed. An
  exception ends the function: every step gives an error or the next state.
\<close>

record ('m, 'e) al_state = "'e partition" +
  model :: "'m"
  checkpoint :: "'m checkpoint_cb"
  losses :: "rat list"
  val_losses :: "rat list"
  accuracies :: "rat list"
  val_accuracies :: "rat list"
  printed :: "msg list"

definition append_history :: "history \<Rightarrow> ('m, 'e) al_state \<Rightarrow> ('m, 'e) al_state" where
  "append_history h st =
     st\<lparr>losses := losses st @ h_loss h,
        val_losses := val_losses st @ h_val_loss h,
        accuracies := accuracies st @ h_binary_accuracy h,
        val_accuracies := val_accuracies st @ h_val_binary_accuracy h\<rparr>"

text \<open>
  The function up to its loop: build and compile the model, print the size of the
  training set, fit, append the history. The checkpoint is not loaded here. The second
  argument is the content of \<^verbatim>\<open>AL_Model.h5\<close> before the run.
\<close>

definition al_start ::
  "('m, 'e) keras \<Rightarrow> 'm option \<Rightarrow> 'e partition \<Rightarrow> error + ('m, 'e) al_state" where
  "al_start K f0 p =
     (case fit K (train_dataset p) (val_dataset p) (compile K (create_model K))
             \<lparr>best = None, saved = f0\<rparr> of
        Inl err \<Rightarrow> Inl err
      | Inr (m, c, h) \<Rightarrow>
          Inr (append_history h
            \<lparr>val_dataset = val_dataset p, test_dataset = test_dataset p,
             train_dataset = train_dataset p, pool_negatives = pool_negatives p,
             pool_positives = pool_positives p,
             model = m, checkpoint = c, losses = [], val_losses = [], accuracies = [],
             val_accuracies = [], printed = [StartingToTrain (length (train_dataset p))]\<rparr>))"

text \<open>
  The numbers of negatives and of positives a round asks its pools for:
  \<^verbatim>\<open>int(sample_ratio_zeros * sampling_size)\<close> and \<^verbatim>\<open>int(sample_ratio_ones * sampling_size)\<close>,
  from the evaluation of the current model on the test set.
\<close>

definition requested :: "('m, 'e) keras \<Rightarrow> nat \<Rightarrow> ('m, 'e) al_state \<Rightarrow> int \<times> int" where
  "requested K sampling_size st =
     (case evaluate K (model st) (test_dataset st) of
        (l, a, false_negatives, false_positives) \<Rightarrow>
      case sample_ratios false_negatives false_positives of
        (sample_ratio_ones, sample_ratio_zeros) \<Rightarrow>
          (sample_count sample_ratio_zeros sampling_size,
           sample_count sample_ratio_ones sampling_size))"

text \<open>
  The first half of a round: predict and evaluate on the test set, compute the ratios,
  take the samples from the front of the two pools, skip them in the pools, append them
  to the training set. (\<^verbatim>\<open>predictions\<close> and \<^verbatim>\<open>rounded\<close> are computed and never used.)
\<close>

definition sample_step ::
  "('m, 'e) keras \<Rightarrow> nat \<Rightarrow> ('m, 'e) al_state \<Rightarrow> error + ('m, 'e) al_state" where
  "sample_step K sampling_size st =
     (case model_evaluate K (model st) (test_dataset st) of
        Inl err \<Rightarrow> Inl err
      | Inr (l, a, false_negatives, false_positives) \<Rightarrow>
      case sample_ratios false_negatives false_positives of
        (sample_ratio_ones, sample_ratio_zeros) \<Rightarrow>
      case ds_take (sample_count sample_ratio_zeros sampling_size) (pool_negatives st) of
        Inl err \<Rightarrow> Inl err
      | Inr taken_negatives \<Rightarrow>
      case ds_take (sample_count sample_ratio_ones sampling_size) (pool_positives st) of
        Inl err \<Rightarrow> Inl err
      | Inr taken_positives \<Rightarrow>
      case ds_skip (sample_count sample_ratio_zeros sampling_size) (pool_negatives st) of
        Inl err \<Rightarrow> Inl err
      | Inr pool_negatives' \<Rightarrow>
      case ds_skip (sample_count sample_ratio_ones sampling_size) (pool_positives st) of
        Inl err \<Rightarrow> Inl err
      | Inr pool_positives' \<Rightarrow>
        let sampled_dataset = taken_negatives @ taken_positives;
            train' = train_dataset st @ sampled_dataset
        in Inr (st\<lparr>pool_negatives := pool_negatives',
                    pool_positives := pool_positives',
                    train_dataset := train',
                    printed := printed st @
                      [Rule, IncorrectlyClassified false_negatives false_positives,
                       SampleRatio sample_ratio_ones sample_ratio_zeros,
                       StartingTraining (length train'), Rule]\<rparr>))"

text \<open>The second half: recompile, fit on the grown training set, append the history.\<close>

definition retrain_step ::
  "('m, 'e) keras \<Rightarrow> ('m, 'e) al_state \<Rightarrow> error + ('m, 'e) al_state" where
  "retrain_step K st =
     (case fit K (train_dataset st) (val_dataset st) (compile K (model st)) (checkpoint st) of
        Inl err \<Rightarrow> Inl err
      | Inr (m, c, h) \<Rightarrow> Inr (append_history h (st\<lparr>model := m, checkpoint := c\<rparr>)))"

text \<open>
  The last statement of the loop body,
  \<^verbatim>\<open>model = keras.models.load_model("AL_Model.h5")\<close>, which raises when there is no file.
\<close>

definition load_model :: "('m, 'e) al_state \<Rightarrow> error + ('m, 'e) al_state" where
  "load_model st =
     (case saved (checkpoint st) of
        None \<Rightarrow> Inl OSError
      | Some m \<Rightarrow> Inr (st\<lparr>model := m\<rparr>))"

definition al_round ::
  "('m, 'e) keras \<Rightarrow> nat \<Rightarrow> ('m, 'e) al_state \<Rightarrow> error + ('m, 'e) al_state" where
  "al_round K sampling_size st =
     (case sample_step K sampling_size st of
        Inl err \<Rightarrow> Inl err
      | Inr st1 \<Rightarrow>
      case retrain_step K st1 of
        Inl err \<Rightarrow> Inl err
      | Inr st2 \<Rightarrow> load_model st2)"

text \<open>\<^verbatim>\<open>for iteration in range(num_iterations)\<close>.\<close>

fun al_loop ::
  "('m, 'e) keras \<Rightarrow> nat \<Rightarrow> nat \<Rightarrow> ('m, 'e) al_state \<Rightarrow> error + ('m, 'e) al_state" where
  "al_loop K sampling_size 0 st = Inr st"
| "al_loop K sampling_size (Suc n) st =
     (case al_round K sampling_size st of
        Inl err \<Rightarrow> Inl err
      | Inr st' \<Rightarrow> al_loop K sampling_size n st')"

text \<open>
  The whole function: the final state holds the returned model, and the last lines
  printed are the evaluation of that model on the test set. (Plotting reads the
  metrics and changes nothing.)
\<close>

definition train_active_learning_models ::
  "('m, 'e) keras \<Rightarrow> 'm option \<Rightarrow> 'e partition \<Rightarrow> nat \<Rightarrow> nat \<Rightarrow>
   error + ('m, 'e) al_state" where
  "train_active_learning_models K f0 p num_iterations sampling_size =
     (case al_start K f0 p of
        Inl err \<Rightarrow> Inl err
      | Inr st0 \<Rightarrow>
      case al_loop K sampling_size num_iterations st0 of
        Inl err \<Rightarrow> Inl err
      | Inr st \<Rightarrow>
      case model_evaluate K (model st) (test_dataset st) of
        Inl err \<Rightarrow> Inl err
      | Inr result \<Rightarrow>
          Inr (st\<lparr>printed := printed st @ [Rule, TestSetEvaluation result, Rule]\<rparr>))"

section \<open>The draws of a run\<close>

text \<open>
  What the rounds of a run are to draw, round by round, as long as the rounds go
  through: of each round the first examples of the negative pool and of the positive
  pool, as many as the round asks for. The claims about the draws compare the pools
  and the training set with this list.
\<close>

fun al_draws ::
  "('m, 'e) keras \<Rightarrow> nat \<Rightarrow> nat \<Rightarrow> ('m, 'e) al_state \<Rightarrow> ('e list \<times> 'e list) list" where
  "al_draws K sampling_size 0 st = []"
| "al_draws K sampling_size (Suc n) st =
     (case al_round K sampling_size st of
        Inl err \<Rightarrow> []
      | Inr st' \<Rightarrow>
          (take (nat (fst (requested K sampling_size st))) (pool_negatives st),
           take (nat (snd (requested K sampling_size st))) (pool_positives st))
          # al_draws K sampling_size n st')"

section \<open>Invariants of the checkpoint\<close>

text \<open>
  What the checkpoint callback and its file hold after the validation losses \<open>seen\<close>
  have been monitored: nothing has been seen and nothing recorded, or the recorded best
  is the least loss seen and the file holds a model with exactly that validation loss.
\<close>

definition ckpt_inv ::
  "('m, 'e) keras \<Rightarrow> 'e list \<Rightarrow> rat list \<Rightarrow> 'm checkpoint_cb \<Rightarrow> bool" where
  "ckpt_inv K va seen c =
     (case best c of
        None \<Rightarrow> seen = []
      | Some b \<Rightarrow>
          seen \<noteq> [] \<and> b = Min (set seen)
          \<and> (case saved c of None \<Rightarrow> False | Some m \<Rightarrow> fst (validate K m va) = b))"

definition al_inv :: "('m, 'e) keras \<Rightarrow> ('m, 'e) al_state \<Rightarrow> bool" where
  "al_inv K st =
     (ckpt_inv K (val_dataset st) (val_losses st) (checkpoint st) \<and> val_losses st \<noteq> [])"

section \<open>A small classifier for concrete runs\<close>

text \<open>
  A classifier whose state is the number of epochs it has been trained for and whose
  validation loss grows with every epoch, so that every \<^verbatim>\<open>fit\<close> stops early after
  \<^verbatim>\<open>patience + 1\<close> epochs and never beats the first epoch of the run. It always
  reports three false negatives and one false positive.
\<close>

definition toy :: "(nat, nat) keras" where
  "toy = \<lparr>create_model = 0, compile = (\<lambda>m. m),
          train_epoch = (\<lambda>tr m. (m + 1, 0, 0)),
          validate = (\<lambda>m va. (of_nat m, 0)),
          evaluate = (\<lambda>m te. (0, 0, 3, 1))\<rparr>"

text \<open>Eight training examples, one negative and three positives in the pools.\<close>

definition toy_partition :: "nat partition" where
  "toy_partition = \<lparr>val_dataset = [10, 11], test_dataset = [20, 21],
     train_dataset = [0, 1, 2, 3, 4, 5, 6, 7], pool_negatives = [100],
     pool_positives = [200, 201, 202]\<rparr>"

text \<open>Three training examples, six negatives and three positives in the pools.\<close>

definition toy_partition_ample :: "nat partition" where
  "toy_partition_ample = \<lparr>val_dataset = [10, 11], test_dataset = [20, 21],
     train_dataset = [0, 1, 2], pool_negatives = [100, 101, 102, 103, 104, 105],
     pool_positives = [200, 201, 202]\<rparr>"

text \<open>
  The states of a run on the first partition with a sampling size of 8: after the first
  \<^verbatim>\<open>fit\<close>, after the sampling of the first round, and after the \<^verbatim>\<open>fit\<close> of the first
  round. The lemmas on concrete runs below show that the controller computes them.
\<close>

definition toy_start :: "(nat, nat) al_state" where
  "toy_start =
     \<lparr>val_dataset = [10, 11], test_dataset = [20, 21],
      train_dataset = [0, 1, 2, 3, 4, 5, 6, 7], pool_negatives = [100],
      pool_positives = [200, 201, 202], model = 5,
      checkpoint = \<lparr>best = Some 1, saved = Some 1\<rparr>,
      losses = [0, 0, 0, 0, 0], val_losses = [1, 2, 3, 4, 5],
      accuracies = [0, 0, 0, 0, 0], val_accuracies = [0, 0, 0, 0, 0],
      printed = [StartingToTrain 8]\<rparr>"

definition toy_sampled :: "(nat, nat) al_state" where
  "toy_sampled =
     toy_start\<lparr>pool_negatives := [], pool_positives := [202],
       train_dataset := [0, 1, 2, 3, 4, 5, 6, 7, 100, 200, 201],
       printed := [StartingToTrain 8, Rule, IncorrectlyClassified 3 1,
                   SampleRatio (1 / 4) (3 / 4), StartingTraining 11, Rule]\<rparr>"

definition toy_retrained :: "(nat, nat) al_state" where
  "toy_retrained =
     toy_sampled\<lparr>model := 10,
       losses := [0, 0, 0, 0, 0, 0, 0, 0, 0, 0],
       val_losses := [1, 2, 3, 4, 5, 6, 7, 8, 9, 10],
       accuracies := [0, 0, 0, 0, 0, 0, 0, 0, 0, 0],
       val_accuracies := [0, 0, 0, 0, 0, 0, 0, 0, 0, 0]\<rparr>"

text \<open>
  The state after the first \<^verbatim>\<open>fit\<close> on the second partition, and the state after the
  sampling of its first round with a sampling size of 8.
\<close>

definition toy_start_ample :: "(nat, nat) al_state" where
  "toy_start_ample =
     toy_start\<lparr>train_dataset := [0, 1, 2],
       pool_negatives := [100, 101, 102, 103, 104, 105],
       printed := [StartingToTrain 3]\<rparr>"

definition toy_sampled_ample :: "(nat, nat) al_state" where
  "toy_sampled_ample =
     toy_start_ample\<lparr>pool_negatives := [], pool_positives := [202],
       train_dataset := [0, 1, 2, 100, 101, 102, 103, 104, 105, 200, 201],
       printed := [StartingToTrain 3, Rule, IncorrectlyClassified 3 1,
                   SampleRatio (1 / 4) (3 / 4), StartingTraining 11, Rule]\<rparr>"

section \<open>Properties of the sampling arithmetic\<close>

lemma sample_ratios_nonneg:
  "0 \<le> fst (sample_ratios fn fp) \<and> 0 \<le> snd (sample_ratios fn fp)"
  by (simp add: sample_ratios_def Let_def)

lemma sample_ratios_le_one:
  "fst (sample_ratios fn fp) \<le> 1 \<and> snd (sample_ratios fn fp) \<le> 1"
  by (simp add: sample_ratios_def Let_def divide_le_eq)

lemma sample_count_bounds:
  assumes "0 \<le> r" "r \<le> 1"
  shows "0 \<le> sample_count r s \<and> sample_count r s \<le> int s"
proof -
  have "r * of_nat s \<le> 1 * of_nat s" using assms(2) by (intro mult_right_mono) simp_all
  then have "r * of_nat s \<le> (of_int (int s) :: rat)" by simp
  then have "\<lfloor>r * of_nat s\<rfloor> \<le> \<lfloor>(of_int (int s) :: rat)\<rfloor>" by (rule floor_mono)
  then have "\<lfloor>r * of_nat s\<rfloor> \<le> int s" by (simp only: floor_of_int)
  then show ?thesis using assms(1) by (simp add: sample_count_def py_int_def)
qed

lemma requested_eq:
  "requested K S st =
     (sample_count
        (snd (sample_ratios (fst (snd (snd (evaluate K (model st) (test_dataset st)))))
                            (snd (snd (snd (evaluate K (model st) (test_dataset st))))))) S,
      sample_count
        (fst (sample_ratios (fst (snd (snd (evaluate K (model st) (test_dataset st)))))
                            (snd (snd (snd (evaluate K (model st) (test_dataset st))))))) S)"
  by (simp add: requested_def split: prod.splits)

lemma requested_bounds:
  "0 \<le> fst (requested K S st) \<and> fst (requested K S st) \<le> int S
   \<and> 0 \<le> snd (requested K S st) \<and> snd (requested K S st) \<le> int S"
  using sample_ratios_nonneg sample_ratios_le_one
  by (simp add: requested_eq sample_count_bounds)

text \<open>
  C1. With both error counts different from zero the share of the positive class is
  \<open>fp / (fp + fn)\<close> and the share of the negative class is \<open>fn / (fp + fn)\<close>; with one
  of the counts zero both shares are one half. For \<open>fn = 30\<close>, \<open>fp = 70\<close> the shares are
  \<open>0.7\<close> and \<open>0.3\<close>; for \<open>fn = 0\<close>, \<open>fp = 12\<close> both are \<open>0.5\<close>.
\<close>

theorem sample_ratios_cross_assignment:
  "(fn \<noteq> 0 \<and> fp \<noteq> 0 \<longrightarrow>
      sample_ratios fn fp = (of_nat fp / of_nat (fp + fn), of_nat fn / of_nat (fp + fn)))
   \<and> (fn = 0 \<or> fp = 0 \<longrightarrow> sample_ratios fn fp = (1 / 2, 1 / 2))
   \<and> sample_ratios 30 70 = (7 / 10, 3 / 10)
   \<and> sample_ratios 0 12 = (1 / 2, 1 / 2)"
  by (auto simp: sample_ratios_def Let_def add.commute)

theorem sample_ratios_cross_assignment_witness:
  "sample_ratios 3 1 = (1 / 4, 3 / 4) \<and> sample_ratios 5 0 = (1 / 2, 1 / 2)"
  using sample_ratios_cross_assignment [of 3 1] sample_ratios_cross_assignment [of 5 0]
  by simp



section \<open>Properties of the data splits\<close>

lemma four_way_split:
  "take a xs @ take b (drop a xs) @ take c (drop (a + b) xs) @ drop (a + b + c) xs = xs"
proof -
  have "take c (drop (a + b) xs) @ drop (a + b + c) xs = drop (a + b) xs"
    by (metis append_take_drop_id drop_drop add.commute)
  moreover have "take b (drop a xs) @ drop (a + b) xs = drop a xs"
    by (metis append_take_drop_id drop_drop add.commute)
  ultimately show ?thesis by simp
qed

lemma positives_negatives_disjoint: "set (positives c) \<inter> set (negatives c) = {}"
  by (auto simp: positives_def negatives_def)

lemma split_corpus_Inr:
  "split_corpus Nv Nt Ntr corpus =
     Inr \<lparr>val_dataset = take Nv (positives corpus) @ take Nv (negatives corpus),
          test_dataset =
            take Nt (drop Nv (positives corpus)) @ take Nt (drop Nv (negatives corpus)),
          train_dataset =
            take Ntr (drop (Nv + Nt) (positives corpus))
            @ take Ntr (drop (Nv + Nt) (negatives corpus)),
          pool_negatives = drop (Nv + Nt + Ntr) (negatives corpus),
          pool_positives = drop (Nv + Nt + Ntr) (positives corpus)\<rparr>"
  by (simp add: split_corpus_def py_slice_def py_slice_from_def Let_def)

lemma distinct_interleave:
  assumes "distinct (a1 @ a2 @ a3 @ a4)" "distinct (b1 @ b2 @ b3 @ b4)"
    "set (a1 @ a2 @ a3 @ a4) \<inter> set (b1 @ b2 @ b3 @ b4) = {}"
  shows "distinct ((a1 @ b1) @ (a2 @ b2) @ (a3 @ b3) @ b4 @ a4)"
  using assms by auto

lemma split_corpus_distinct:
  assumes "distinct corpus"
  shows "distinct
     ((take Nv (positives corpus) @ take Nv (negatives corpus))
      @ (take Nt (drop Nv (positives corpus)) @ take Nt (drop Nv (negatives corpus)))
      @ (take Ntr (drop (Nv + Nt) (positives corpus))
         @ take Ntr (drop (Nv + Nt) (negatives corpus)))
      @ drop (Nv + Nt + Ntr) (negatives corpus) @ drop (Nv + Nt + Ntr) (positives corpus))"
proof -
  let ?P = "positives corpus" and ?N = "negatives corpus"
  have dp: "distinct ?P" and dn: "distinct ?N"
    using assms by (simp_all add: positives_def negatives_def)
  have "distinct (take Nv ?P @ take Nt (drop Nv ?P) @ take Ntr (drop (Nv + Nt) ?P)
      @ drop (Nv + Nt + Ntr) ?P)"
    using dp by (simp only: four_way_split)
  moreover have "distinct (take Nv ?N @ take Nt (drop Nv ?N) @ take Ntr (drop (Nv + Nt) ?N)
      @ drop (Nv + Nt + Ntr) ?N)"
    using dn by (simp only: four_way_split)
  moreover have "set (take Nv ?P @ take Nt (drop Nv ?P) @ take Ntr (drop (Nv + Nt) ?P)
        @ drop (Nv + Nt + Ntr) ?P)
      \<inter> set (take Nv ?N @ take Nt (drop Nv ?N) @ take Ntr (drop (Nv + Nt) ?N)
        @ drop (Nv + Nt + Ntr) ?N) = {}"
    using positives_negatives_disjoint[of corpus] by (simp only: four_way_split)
  ultimately show ?thesis by (rule distinct_interleave)
qed

text \<open>
  C9. The construction is a function of the corpus and the three sizes. Per class it
  gives the first \<open>Nv\<close> examples to validation, the next \<open>Nt\<close> to test, the next
  \<open>Ntr\<close> to the initial training set and the rest to the pool of the class, in the
  order of the corpus, and the four parts of a class put together again are the class.
  The five datasets of a corpus without repeated examples share no example. When both
  classes hold \<open>Nv + Nt + Ntr\<close> examples the three labelled sets have \<open>2 Nv\<close>,
  \<open>2 Nt\<close> and \<open>2 Ntr\<close> examples.
\<close>

theorem split_corpus_partition:
  "\<exists>p. split_corpus Nv Nt Ntr corpus = Inr p
     \<and> val_dataset p = take Nv (positives corpus) @ take Nv (negatives corpus)
     \<and> test_dataset p =
         take Nt (drop Nv (positives corpus)) @ take Nt (drop Nv (negatives corpus))
     \<and> train_dataset p =
         take Ntr (drop (Nv + Nt) (positives corpus))
         @ take Ntr (drop (Nv + Nt) (negatives corpus))
     \<and> pool_positives p = drop (Nv + Nt + Ntr) (positives corpus)
     \<and> pool_negatives p = drop (Nv + Nt + Ntr) (negatives corpus)
     \<and> take Nv (positives corpus) @ take Nt (drop Nv (positives corpus))
         @ take Ntr (drop (Nv + Nt) (positives corpus)) @ pool_positives p = positives corpus
     \<and> take Nv (negatives corpus) @ take Nt (drop Nv (negatives corpus))
         @ take Ntr (drop (Nv + Nt) (negatives corpus)) @ pool_negatives p = negatives corpus
     \<and> (distinct corpus \<longrightarrow>
          distinct (val_dataset p @ test_dataset p @ train_dataset p
                    @ pool_negatives p @ pool_positives p))
     \<and> (Nv + Nt + Ntr \<le> length (positives corpus)
          \<and> Nv + Nt + Ntr \<le> length (negatives corpus) \<longrightarrow>
          length (val_dataset p) = 2 * Nv \<and> length (test_dataset p) = 2 * Nt
          \<and> length (train_dataset p) = 2 * Ntr)"
proof -
  let ?p = "\<lparr>val_dataset = take Nv (positives corpus) @ take Nv (negatives corpus),
          test_dataset =
            take Nt (drop Nv (positives corpus)) @ take Nt (drop Nv (negatives corpus)),
          train_dataset =
            take Ntr (drop (Nv + Nt) (positives corpus))
            @ take Ntr (drop (Nv + Nt) (negatives corpus)),
          pool_negatives = drop (Nv + Nt + Ntr) (negatives corpus),
          pool_positives = drop (Nv + Nt + Ntr) (positives corpus)\<rparr>"
  have eq: "split_corpus Nv Nt Ntr corpus = Inr ?p" by (rule split_corpus_Inr)
  have parts: "take Nv (positives corpus) @ take Nt (drop Nv (positives corpus))
         @ take Ntr (drop (Nv + Nt) (positives corpus)) @ pool_positives ?p = positives corpus"
    "take Nv (negatives corpus) @ take Nt (drop Nv (negatives corpus))
         @ take Ntr (drop (Nv + Nt) (negatives corpus)) @ pool_negatives ?p = negatives corpus"
    by (simp_all add: four_way_split)
  have dist: "distinct corpus \<longrightarrow>
          distinct (val_dataset ?p @ test_dataset ?p @ train_dataset ?p
                    @ pool_negatives ?p @ pool_positives ?p)"
    using split_corpus_distinct[of corpus Nv Nt Ntr] by simp
  have sizes: "Nv + Nt + Ntr \<le> length (positives corpus)
          \<and> Nv + Nt + Ntr \<le> length (negatives corpus) \<longrightarrow>
          length (val_dataset ?p) = 2 * Nv \<and> length (test_dataset ?p) = 2 * Nt
          \<and> length (train_dataset ?p) = 2 * Ntr"
    by auto
  have fields: "val_dataset ?p = take Nv (positives corpus) @ take Nv (negatives corpus)"
    "test_dataset ?p =
         take Nt (drop Nv (positives corpus)) @ take Nt (drop Nv (negatives corpus))"
    "train_dataset ?p =
         take Ntr (drop (Nv + Nt) (positives corpus))
         @ take Ntr (drop (Nv + Nt) (negatives corpus))"
    "pool_positives ?p = drop (Nv + Nt + Ntr) (positives corpus)"
    "pool_negatives ?p = drop (Nv + Nt + Ntr) (negatives corpus)"
    by simp_all
  from eq fields parts dist sizes show ?thesis by blast
qed

theorem split_corpus_partition_witness:
  "distinct [(''a'', 1::int), (''b'', 0), (''c'', 1), (''d'', 0), (''e'', 1), (''f'', 0),
             (''g'', 1), (''h'', 0)]
   \<and> 1 + 1 + 1 \<le> length (positives [(''a'', 1::int), (''b'', 0), (''c'', 1), (''d'', 0),
                (''e'', 1), (''f'', 0), (''g'', 1), (''h'', 0)])
   \<and> 1 + 1 + 1 \<le> length (negatives [(''a'', 1::int), (''b'', 0), (''c'', 1), (''d'', 0),
                (''e'', 1), (''f'', 0), (''g'', 1), (''h'', 0)])
   \<and> split_corpus 1 1 1
        [(''a'', 1), (''b'', 0), (''c'', 1), (''d'', 0), (''e'', 1), (''f'', 0),
         (''g'', 1), (''h'', 0)] =
      Inr \<lparr>val_dataset = [(''a'', 1), (''b'', 0)], test_dataset = [(''c'', 1), (''d'', 0)],
           train_dataset = [(''e'', 1), (''f'', 0)], pool_negatives = [(''h'', 0)],
           pool_positives = [(''g'', 1)]\<rparr>"
proof -
  let ?c = "[(''a'', 1::int), (''b'', 0), (''c'', 1), (''d'', 0), (''e'', 1), (''f'', 0),
             (''g'', 1), (''h'', 0)]"
  have d: "distinct ?c" by simp
  have P: "positives ?c = [(''a'', 1), (''c'', 1), (''e'', 1), (''g'', 1)]"
    by (simp add: positives_def)
  have N: "negatives ?c = [(''b'', 0), (''d'', 0), (''f'', 0), (''h'', 0)]"
    by (simp add: negatives_def)
  from split_corpus_partition[of 1 1 1 ?c] obtain p where
    "split_corpus 1 1 1 ?c = Inr p"
    "val_dataset p = take 1 (positives ?c) @ take 1 (negatives ?c)"
    "test_dataset p = take 1 (drop 1 (positives ?c)) @ take 1 (drop 1 (negatives ?c))"
    "train_dataset p = take 1 (drop (1 + 1) (positives ?c)) @ take 1 (drop (1 + 1) (negatives ?c))"
    "pool_positives p = drop (1 + 1 + 1) (positives ?c)"
    "pool_negatives p = drop (1 + 1 + 1) (negatives ?c)"
    by blast
  then have "split_corpus 1 1 1 ?c =
      Inr \<lparr>val_dataset = [(''a'', 1), (''b'', 0)], test_dataset = [(''c'', 1), (''d'', 0)],
           train_dataset = [(''e'', 1), (''f'', 0)], pool_negatives = [(''h'', 0)],
           pool_positives = [(''g'', 1)]\<rparr>"
    by (simp add: P N)
  with d show ?thesis by (simp add: P N)
qed

text \<open>
  C4, as the code has it. The construction never fails: there is no check of the class
  sizes, and a slice that reaches beyond the end of a class is cut short. The sizes of
  the results are the sizes of the slices, and the pool of a class with at most
  \<open>Nv + Nt + Ntr\<close> examples is empty.
\<close>

theorem split_corpus_never_fails:
  "split_corpus Nv Nt Ntr corpus \<noteq> Inl err
   \<and> (\<exists>p. split_corpus Nv Nt Ntr corpus = Inr p
        \<and> length (val_dataset p) =
            min Nv (length (positives corpus)) + min Nv (length (negatives corpus))
        \<and> length (test_dataset p) =
            min Nt (length (positives corpus) - Nv) + min Nt (length (negatives corpus) - Nv)
        \<and> length (train_dataset p) =
            min Ntr (length (positives corpus) - (Nv + Nt))
            + min Ntr (length (negatives corpus) - (Nv + Nt))
        \<and> length (pool_positives p) = length (positives corpus) - (Nv + Nt + Ntr)
        \<and> length (pool_negatives p) = length (negatives corpus) - (Nv + Nt + Ntr))"
  by (simp add: split_corpus_Inr min.commute)

theorem split_corpus_short_class_counterexample:
  "length (positives [(''a'', 1::int), (''b'', 0)]) < 1 + 1 + 1
   \<and> split_corpus 1 1 1 [(''a'', 1::int), (''b'', 0)] =
       Inr \<lparr>val_dataset = [(''a'', 1), (''b'', 0)], test_dataset = [], train_dataset = [],
            pool_negatives = [], pool_positives = []\<rparr>"
  by (simp add: split_corpus_Inr positives_def negatives_def)

section \<open>One \<^verbatim>\<open>fit\<close> and the checkpoint\<close>

lemma ckpt_step:
  assumes "ckpt_inv K va seen c" "fst (validate K m va) = vl"
  shows "ckpt_inv K va (seen @ [vl]) (checkpoint_on_epoch_end m vl c)"
proof (cases "best c")
  case None
  with assms show ?thesis
    by (simp add: ckpt_inv_def checkpoint_on_epoch_end_def improves_def)
next
  case (Some b)
  with assms have ne: "seen \<noteq> []" and b: "b = Min (set seen)"
    by (simp_all add: ckpt_inv_def)
  have m: "Min (set (seen @ [vl])) = min vl (Min (set seen))"
    using ne by (simp add: Min_insert)
  show ?thesis
  proof (cases "vl < b")
    case True
    then show ?thesis using Some assms(2) b m
      by (simp add: ckpt_inv_def checkpoint_on_epoch_end_def improves_def min_def)
  next
    case False
    then have "min vl (Min (set seen)) = b" using b by (simp add: min_def)
    with m have M: "Min (set (seen @ [vl])) = b" by (simp only:)
    have same: "checkpoint_on_epoch_end m vl c = c"
      using False Some by (simp add: checkpoint_on_epoch_end_def improves_def)
    have "seen @ [vl] \<noteq> []" by simp
    moreover have "case saved c of None \<Rightarrow> False | Some m \<Rightarrow> fst (validate K m va) = b"
      using assms(1) Some by (simp add: ckpt_inv_def)
    ultimately show ?thesis
      unfolding ckpt_inv_def same Some using M by (simp only: option.case) simp
  qed
qed

lemma fit_epochs_inv:
  assumes "ckpt_inv K va (seen @ h_val_loss h) c"
    "fit_epochs K n tr va (m, c, e, h) = (m', c', e', h')"
  shows "ckpt_inv K va (seen @ h_val_loss h') c'"
  using assms
proof (induction n arbitrary: m c e h)
  case 0
  then show ?case by simp
next
  case (Suc n)
  obtain m1 l a where te: "train_epoch K tr m = (m1, l, a)"
    by (cases "train_epoch K tr m") auto
  obtain vl vacc where v: "validate K m1 va = (vl, vacc)"
    by (cases "validate K m1 va") auto
  let ?c = "checkpoint_on_epoch_end m1 vl c"
  let ?e = "early_on_epoch_end vl e"
  let ?h = "\<lparr>h_loss = h_loss h @ [l], h_val_loss = h_val_loss h @ [vl],
            h_binary_accuracy = h_binary_accuracy h @ [a],
            h_val_binary_accuracy = h_val_binary_accuracy h @ [vacc]\<rparr>"
  have inv1: "ckpt_inv K va (seen @ h_val_loss ?h) ?c"
    using ckpt_step[OF Suc.prems(1), of m1 vl] v by simp
  show ?case
  proof (cases "patience \<le> wait ?e")
    case True
    with Suc.prems(2) te v have "m' = m1 \<and> c' = ?c \<and> h' = ?h" by (auto simp add: Let_def)
    with inv1 show ?thesis by simp
  next
    case False
    with Suc.prems(2) te v have "fit_epochs K n tr va (m1, ?c, ?e, ?h) = (m', c', e', h')"
      by (simp add: Let_def)
    from Suc.IH[OF inv1 this] show ?thesis .
  qed
qed

lemma fit_epochs_history_mono:
  assumes "fit_epochs K k tr va (m, c, e, h) = (m', c', e', h')"
  shows "length (h_val_loss h) \<le> length (h_val_loss h')"
  using assms
proof (induction k arbitrary: m c e h)
  case 0
  then show ?case by simp
next
  case (Suc k)
  obtain m1 l a where te: "train_epoch K tr m = (m1, l, a)"
    by (cases "train_epoch K tr m") auto
  obtain vl vacc where v: "validate K m1 va = (vl, vacc)"
    by (cases "validate K m1 va") auto
  let ?h = "\<lparr>h_loss = h_loss h @ [l], h_val_loss = h_val_loss h @ [vl],
            h_binary_accuracy = h_binary_accuracy h @ [a],
            h_val_binary_accuracy = h_val_binary_accuracy h @ [vacc]\<rparr>"
  show ?case
  proof (cases "patience \<le> wait (early_on_epoch_end vl e)")
    case True
    with Suc.prems te v show ?thesis by (auto simp add: Let_def)
  next
    case False
    with Suc.prems te v have
      "fit_epochs K k tr va
         (m1, checkpoint_on_epoch_end m1 vl c, early_on_epoch_end vl e, ?h) = (m', c', e', h')"
      by (simp add: Let_def)
    from Suc.IH[OF this] show ?thesis by simp
  qed
qed

lemma fit_epochs_history_grows:
  assumes "fit_epochs K (Suc n) tr va (m, c, e, h) = (m', c', e', h')"
  shows "length (h_val_loss h) < length (h_val_loss h')"
proof -
  obtain m1 l a where te: "train_epoch K tr m = (m1, l, a)"
    by (cases "train_epoch K tr m") auto
  obtain vl vacc where v: "validate K m1 va = (vl, vacc)"
    by (cases "validate K m1 va") auto
  let ?h = "\<lparr>h_loss = h_loss h @ [l], h_val_loss = h_val_loss h @ [vl],
            h_binary_accuracy = h_binary_accuracy h @ [a],
            h_val_binary_accuracy = h_val_binary_accuracy h @ [vacc]\<rparr>"
  show ?thesis
  proof (cases "patience \<le> wait (early_on_epoch_end vl e)")
    case True
    with assms te v show ?thesis by (auto simp add: Let_def)
  next
    case False
    with assms te v have
      "fit_epochs K n tr va
         (m1, checkpoint_on_epoch_end m1 vl c, early_on_epoch_end vl e, ?h) = (m', c', e', h')"
      by (simp add: Let_def)
    from fit_epochs_history_mono[OF this] show ?thesis by simp
  qed
qed

lemma fit_result_inv:
  assumes "ckpt_inv K va seen c" "fit_result K tr va m c = (m', c', h)"
  shows "ckpt_inv K va (seen @ h_val_loss h) c' \<and> h_val_loss h \<noteq> []"
proof -
  obtain e' where
    fe: "fit_epochs K epochs tr va (m, c, early_on_train_begin, empty_history) = (m', c', e', h)"
    using assms(2) by (auto simp: fit_result_def split: prod.splits)
  have "ckpt_inv K va (seen @ h_val_loss empty_history) c"
    using assms(1) by (simp add: empty_history_def)
  from fit_epochs_inv[OF this fe] have 1: "ckpt_inv K va (seen @ h_val_loss h) c'" .
  have "epochs = Suc 19" by (simp add: epochs_def)
  with fe fit_epochs_history_grows[of K 19 tr va m c early_on_train_begin empty_history m' c' e' h]
  have "h_val_loss h \<noteq> []" by auto
  with 1 show ?thesis by simp
qed

lemma fit_Inr_iff:
  "fit K tr va m c = Inr r \<longleftrightarrow> tr \<noteq> [] \<and> va \<noteq> [] \<and> r = fit_result K tr va m c"
  by (auto simp: fit_def)

section \<open>The steps of a round\<close>

lemma ds_take_Inr:
  "0 \<le> k \<Longrightarrow> k \<le> int64_max \<Longrightarrow> ds_take k xs = Inr (take (nat k) xs)"
  by (simp add: ds_take_def int64_min_def)

lemma ds_skip_Inr:
  "0 \<le> k \<Longrightarrow> k \<le> int64_max \<Longrightarrow> ds_skip k xs = Inr (drop (nat k) xs)"
  by (simp add: ds_skip_def int64_min_def)

lemma ds_take_Inl: "int64_max < k \<Longrightarrow> ds_take k xs = Inl OverflowError"
  by (simp add: ds_take_def)

text \<open>The first half of a round in closed form.\<close>

lemma sample_step_eq:
  "sample_step K S st =
     (if test_dataset st = [] then Inl ValueError
      else if int64_max < fst (requested K S st) \<or> int64_max < snd (requested K S st)
        then Inl OverflowError
      else Inr (st\<lparr>pool_negatives := drop (nat (fst (requested K S st))) (pool_negatives st),
                  pool_positives := drop (nat (snd (requested K S st))) (pool_positives st),
                  train_dataset :=
                    train_dataset st
                    @ take (nat (fst (requested K S st))) (pool_negatives st)
                    @ take (nat (snd (requested K S st))) (pool_positives st),
                  printed := printed st @
                    [Rule,
                     IncorrectlyClassified
                       (fst (snd (snd (evaluate K (model st) (test_dataset st)))))
                       (snd (snd (snd (evaluate K (model st) (test_dataset st))))),
                     SampleRatio
                       (fst (sample_ratios
                          (fst (snd (snd (evaluate K (model st) (test_dataset st)))))
                          (snd (snd (snd (evaluate K (model st) (test_dataset st)))))))
                       (snd (sample_ratios
                          (fst (snd (snd (evaluate K (model st) (test_dataset st)))))
                          (snd (snd (snd (evaluate K (model st) (test_dataset st))))))),
                     StartingTraining
                       (length (train_dataset st
                          @ take (nat (fst (requested K S st))) (pool_negatives st)
                          @ take (nat (snd (requested K S st))) (pool_positives st))),
                     Rule]\<rparr>))"
proof (cases "test_dataset st = []")
  case True
  then show ?thesis by (simp add: sample_step_def model_evaluate_def)
next
  case False
  obtain l a fn fp where ev: "evaluate K (model st) (test_dataset st) = (l, a, fn, fp)"
    by (cases "evaluate K (model st) (test_dataset st)") auto
  obtain ro rz where r: "sample_ratios fn fp = (ro, rz)" by (cases "sample_ratios fn fp") auto
  have rq: "requested K S st = (sample_count rz S, sample_count ro S)"
    by (simp add: requested_def ev r)
  have nn: "0 \<le> sample_count rz S" "0 \<le> sample_count ro S"
    using requested_bounds[of K S st] rq by simp_all
  show ?thesis
  proof (cases "int64_max < sample_count rz S")
    case True
    then show ?thesis using False ev r rq
      by (simp add: sample_step_def model_evaluate_def ds_take_Inl)
  next
    case zfit: False
    show ?thesis
    proof (cases "int64_max < sample_count ro S")
      case True
      then show ?thesis using False ev r rq zfit nn
        by (simp add: sample_step_def model_evaluate_def ds_take_Inl ds_take_Inr)
    next
      case ofit: False
      then show ?thesis using False ev r rq zfit nn
        by (simp add: sample_step_def model_evaluate_def ds_take_Inr ds_skip_Inr Let_def)
    qed
  qed
qed

lemma sample_step_Inr:
  assumes "sample_step K S st = Inr st1"
  shows "test_dataset st \<noteq> []"
    "fst (requested K S st) \<le> int64_max" "snd (requested K S st) \<le> int64_max"
    "pool_negatives st1 = drop (nat (fst (requested K S st))) (pool_negatives st)"
    "pool_positives st1 = drop (nat (snd (requested K S st))) (pool_positives st)"
    "train_dataset st1 =
       train_dataset st @ take (nat (fst (requested K S st))) (pool_negatives st)
                        @ take (nat (snd (requested K S st))) (pool_positives st)"
    "val_dataset st1 = val_dataset st" "test_dataset st1 = test_dataset st"
    "model st1 = model st" "checkpoint st1 = checkpoint st" "val_losses st1 = val_losses st"
    "\<exists>fn fp ro rz. printed st1 = printed st @
        [Rule, IncorrectlyClassified fn fp, SampleRatio ro rz,
         StartingTraining (length (train_dataset st1)), Rule]"
  using assms by (auto simp: sample_step_eq split: if_splits)

lemma sample_step_succeeds:
  assumes "test_dataset st \<noteq> []" "int S \<le> int64_max"
  shows "\<exists>st1. sample_step K S st = Inr st1"
  using assms requested_bounds[of K S st] by (auto simp: sample_step_eq)

lemma retrain_step_Inr:
  assumes "retrain_step K st = Inr st2"
  shows "train_dataset st \<noteq> []" "val_dataset st \<noteq> []"
    "val_dataset st2 = val_dataset st" "test_dataset st2 = test_dataset st"
    "train_dataset st2 = train_dataset st" "pool_negatives st2 = pool_negatives st"
    "pool_positives st2 = pool_positives st" "printed st2 = printed st"
    "\<exists>more. val_losses st2 = val_losses st @ more"
  using assms
  by (auto simp: retrain_step_def fit_def append_history_def split: if_splits prod.splits)

lemma retrain_step_inv:
  assumes "ckpt_inv K (val_dataset st) (val_losses st) (checkpoint st)"
    "retrain_step K st = Inr st2"
  shows "al_inv K st2"
proof -
  from assms(2) obtain m c h where
    f: "fit_result K (train_dataset st) (val_dataset st) (compile K (model st)) (checkpoint st)
          = (m, c, h)"
    and s: "st2 = append_history h (st\<lparr>model := m, checkpoint := c\<rparr>)"
    by (auto simp: retrain_step_def fit_def split: if_splits prod.splits)
  from fit_result_inv[OF assms(1) f] show ?thesis
    by (simp add: al_inv_def s append_history_def)
qed

lemma retrain_step_succeeds:
  assumes "train_dataset st \<noteq> []" "val_dataset st \<noteq> []"
  shows "\<exists>st2. retrain_step K st = Inr st2"
  using assms by (auto simp: retrain_step_def fit_def split: prod.splits)

lemma al_start_Inr:
  assumes "al_start K f0 p = Inr st0"
  shows "train_dataset p \<noteq> []" "val_dataset p \<noteq> []"
    "val_dataset st0 = val_dataset p" "test_dataset st0 = test_dataset p"
    "train_dataset st0 = train_dataset p" "pool_negatives st0 = pool_negatives p"
    "pool_positives st0 = pool_positives p"
    "printed st0 = [StartingToTrain (length (train_dataset p))]"
    "al_inv K st0"
proof -
  let ?c0 = "\<lparr>best = None, saved = f0\<rparr>"
  from assms obtain m c h where
    ne: "train_dataset p \<noteq> []" "val_dataset p \<noteq> []"
    and f: "fit_result K (train_dataset p) (val_dataset p) (compile K (create_model K)) ?c0
          = (m, c, h)"
    and s: "st0 = append_history h
            \<lparr>val_dataset = val_dataset p, test_dataset = test_dataset p,
             train_dataset = train_dataset p, pool_negatives = pool_negatives p,
             pool_positives = pool_positives p,
             model = m, checkpoint = c, losses = [], val_losses = [], accuracies = [],
             val_accuracies = [], printed = [StartingToTrain (length (train_dataset p))]\<rparr>"
    by (auto simp: al_start_def fit_def split: if_splits prod.splits)
  show "train_dataset p \<noteq> []" "val_dataset p \<noteq> []" by (rule ne)+
  show "val_dataset st0 = val_dataset p" "test_dataset st0 = test_dataset p"
    "train_dataset st0 = train_dataset p" "pool_negatives st0 = pool_negatives p"
    "pool_positives st0 = pool_positives p"
    "printed st0 = [StartingToTrain (length (train_dataset p))]"
    by (simp_all add: s append_history_def)
  have "ckpt_inv K (val_dataset p) [] ?c0" by (simp add: ckpt_inv_def)
  from fit_result_inv[OF this f] show "al_inv K st0"
    by (simp add: al_inv_def s append_history_def)
qed

lemma al_start_succeeds:
  assumes "train_dataset p \<noteq> []" "val_dataset p \<noteq> []"
  shows "\<exists>st0. al_start K f0 p = Inr st0"
  using assms by (auto simp: al_start_def fit_def split: prod.splits)

lemma al_start_model:
  assumes "al_start K f0 p = Inr st0"
  shows "\<exists>c h. fit K (train_dataset p) (val_dataset p) (compile K (create_model K))
             \<lparr>best = None, saved = f0\<rparr> = Inr (model st0, c, h)"
  using assms by (auto simp: al_start_def append_history_def split: sum.splits)

lemma al_inv_saved:
  assumes "al_inv K st"
  shows "\<exists>m. saved (checkpoint st) = Some m
           \<and> fst (validate K m (val_dataset st)) = Min (set (val_losses st))"
  using assms by (auto simp: al_inv_def ckpt_inv_def split: option.splits)

lemma load_model_inv:
  assumes "al_inv K st"
  shows "\<exists>st'. load_model st = Inr st' \<and> al_inv K st'
           \<and> saved (checkpoint st') = Some (model st')"
proof -
  from al_inv_saved[OF assms] obtain m where m: "saved (checkpoint st) = Some m" by blast
  then have "load_model st = Inr (st\<lparr>model := m\<rparr>)" by (simp add: load_model_def)
  moreover have "al_inv K (st\<lparr>model := m\<rparr>)" using assms by (simp add: al_inv_def)
  ultimately show ?thesis using m by simp
qed

lemma al_round_Inr:
  assumes "al_round K S st = Inr st'"
  shows "\<exists>st1 st2 m. sample_step K S st = Inr st1 \<and> retrain_step K st1 = Inr st2
           \<and> saved (checkpoint st2) = Some m \<and> st' = st2\<lparr>model := m\<rparr>"
  using assms by (auto simp: al_round_def load_model_def split: sum.splits option.splits)

lemma al_round_data:
  assumes "al_round K S st = Inr st'"
  shows "pool_negatives st' = drop (nat (fst (requested K S st))) (pool_negatives st)"
    "pool_positives st' = drop (nat (snd (requested K S st))) (pool_positives st)"
    "train_dataset st' =
       train_dataset st @ take (nat (fst (requested K S st))) (pool_negatives st)
                        @ take (nat (snd (requested K S st))) (pool_positives st)"
    "val_dataset st' = val_dataset st" "test_dataset st' = test_dataset st"
    "\<exists>fn fp ro rz. printed st' = printed st @
        [Rule, IncorrectlyClassified fn fp, SampleRatio ro rz,
         StartingTraining (length (train_dataset st')), Rule]"
    "test_dataset st \<noteq> []" "val_dataset st \<noteq> []"
    "\<exists>more. val_losses st' = val_losses st @ more"
proof -
  from al_round_Inr[OF assms] obtain st1 st2 m where
    s1: "sample_step K S st = Inr st1" and s2: "retrain_step K st1 = Inr st2"
    and s: "st' = st2\<lparr>model := m\<rparr>" by blast
  note a = sample_step_Inr[OF s1] and b = retrain_step_Inr[OF s2]
  show "pool_negatives st' = drop (nat (fst (requested K S st))) (pool_negatives st)"
    "pool_positives st' = drop (nat (snd (requested K S st))) (pool_positives st)"
    "train_dataset st' =
       train_dataset st @ take (nat (fst (requested K S st))) (pool_negatives st)
                        @ take (nat (snd (requested K S st))) (pool_positives st)"
    "val_dataset st' = val_dataset st" "test_dataset st' = test_dataset st"
    by (simp_all add: s a b)
  show "test_dataset st \<noteq> []" by (rule a(1))
  show "val_dataset st \<noteq> []" using b(2) a(7) by simp
  from a(12) show "\<exists>fn fp ro rz. printed st' = printed st @
        [Rule, IncorrectlyClassified fn fp, SampleRatio ro rz,
         StartingTraining (length (train_dataset st')), Rule]"
    by (simp add: s b(5) b(8))
  from b(9) show "\<exists>more. val_losses st' = val_losses st @ more"
    by (simp add: s a(11))
qed

lemma al_round_inv:
  assumes "al_inv K st" "al_round K S st = Inr st'"
  shows "al_inv K st' \<and> saved (checkpoint st') = Some (model st')"
proof -
  from al_round_Inr[OF assms(2)] obtain st1 st2 m where
    s1: "sample_step K S st = Inr st1" and s2: "retrain_step K st1 = Inr st2"
    and sv: "saved (checkpoint st2) = Some m" and s: "st' = st2\<lparr>model := m\<rparr>"
    by blast
  have "ckpt_inv K (val_dataset st1) (val_losses st1) (checkpoint st1)"
    using assms(1) sample_step_Inr[OF s1] by (simp add: al_inv_def)
  from retrain_step_inv[OF this s2] have "al_inv K st2" .
  then have "al_inv K (st2\<lparr>model := m\<rparr>)" by (simp add: al_inv_def)
  with s sv show ?thesis by simp
qed

lemma al_round_succeeds:
  assumes "al_inv K st" "test_dataset st \<noteq> []" "train_dataset st \<noteq> []" "val_dataset st \<noteq> []"
    "int S \<le> int64_max"
  shows "\<exists>st'. al_round K S st = Inr st'"
proof -
  from sample_step_succeeds[OF assms(2,5)] obtain st1 where
    s1: "sample_step K S st = Inr st1" by blast
  note a = sample_step_Inr[OF s1]
  have "train_dataset st1 \<noteq> []" "val_dataset st1 \<noteq> []" using assms(3,4) a by simp_all
  from retrain_step_succeeds[OF this] obtain st2 where s2: "retrain_step K st1 = Inr st2"
    by blast
  have "ckpt_inv K (val_dataset st1) (val_losses st1) (checkpoint st1)"
    using assms(1) a by (simp add: al_inv_def)
  from load_model_inv[OF retrain_step_inv[OF this s2]] s1 s2 show ?thesis
    by (auto simp: al_round_def)
qed

section \<open>The loop\<close>

lemma al_loop_snoc:
  "al_loop K S (Suc n) st =
     (case al_loop K S n st of Inl err \<Rightarrow> Inl err | Inr st' \<Rightarrow> al_round K S st')"
proof (induction n arbitrary: st)
  case 0
  then show ?case by (simp split: sum.splits)
next
  case (Suc n)
  show ?case
  proof (cases "al_round K S st")
    case (Inl err)
    then show ?thesis by simp
  next
    case (Inr st1)
    then show ?thesis using Suc.IH[of st1] by simp
  qed
qed

lemma al_loop_inv:
  assumes "al_inv K st" "al_loop K S n st = Inr st'"
  shows "al_inv K st'"
  using assms
proof (induction n arbitrary: st)
  case 0
  then show ?case by simp
next
  case (Suc n)
  from Suc.prems(2) obtain st1 where
    r: "al_round K S st = Inr st1" and l: "al_loop K S n st1 = Inr st'"
    by (auto split: sum.splits)
  from al_round_inv[OF Suc.prems(1) r] have "al_inv K st1" by simp
  from Suc.IH[OF this l] show ?case .
qed

lemma al_loop_fixed:
  assumes "al_loop K S n st = Inr st'"
  shows "val_dataset st' = val_dataset st \<and> test_dataset st' = test_dataset st"
  using assms
proof (induction n arbitrary: st)
  case 0
  then show ?case by simp
next
  case (Suc n)
  from Suc.prems obtain st1 where
    r: "al_round K S st = Inr st1" and l: "al_loop K S n st1 = Inr st'"
    by (auto split: sum.splits)
  from Suc.IH[OF l] al_round_data(4,5)[OF r] show ?case by simp
qed

lemma al_loop_val_losses:
  assumes "al_loop K S n st = Inr st'"
  shows "\<exists>more. val_losses st' = val_losses st @ more"
  using assms
proof (induction n arbitrary: st)
  case 0
  then show ?case by simp
next
  case (Suc n)
  from Suc.prems obtain st1 where
    r: "al_round K S st = Inr st1" and l: "al_loop K S n st1 = Inr st'"
    by (auto split: sum.splits)
  from al_round_data(9)[OF r] obtain more1 where 1: "val_losses st1 = val_losses st @ more1"
    by blast
  from Suc.IH[OF l] obtain more2 where "val_losses st' = val_losses st1 @ more2" by blast
  with 1 show ?case by simp
qed

lemma al_loop_succeeds:
  assumes "al_inv K st" "test_dataset st \<noteq> []" "train_dataset st \<noteq> []" "val_dataset st \<noteq> []"
    "int S \<le> int64_max"
  shows "\<exists>st'. al_loop K S n st = Inr st'"
  using assms(1-4)
proof (induction n arbitrary: st)
  case 0
  then show ?case by simp
next
  case (Suc n)
  from al_round_succeeds[OF Suc.prems assms(5)] obtain st1 where
    r: "al_round K S st = Inr st1" by blast
  have "al_inv K st1" using al_round_inv[OF Suc.prems(1) r] by simp
  moreover have "test_dataset st1 \<noteq> []" "val_dataset st1 \<noteq> []"
    using Suc.prems al_round_data(4,5)[OF r] by simp_all
  moreover have "train_dataset st1 \<noteq> []" using Suc.prems(3) al_round_data(3)[OF r] by simp
  ultimately obtain st' where "al_loop K S n st1 = Inr st'" using Suc.IH by blast
  with r show ?case by simp
qed

lemma run_succeeds:
  assumes "train_dataset p \<noteq> []" "val_dataset p \<noteq> []" "test_dataset p \<noteq> []"
    "int S \<le> int64_max"
  shows "\<exists>st. train_active_learning_models K f0 p N S = Inr st"
proof -
  from al_start_succeeds[OF assms(1,2)] obtain st0 where s0: "al_start K f0 p = Inr st0"
    by blast
  note a = al_start_Inr[OF s0]
  have "\<exists>st'. al_loop K S N st0 = Inr st'"
    using a assms by (intro al_loop_succeeds) simp_all
  then obtain st1 where l: "al_loop K S N st0 = Inr st1" by blast
  have "test_dataset st1 \<noteq> []" using al_loop_fixed[OF l] a(4) assms(3) by simp
  then show ?thesis using s0 l
    by (simp add: train_active_learning_models_def model_evaluate_def)
qed

lemma run_Inr:
  assumes "train_active_learning_models K f0 p N S = Inr st"
  shows "\<exists>st0 st1. al_start K f0 p = Inr st0 \<and> al_loop K S N st0 = Inr st1
           \<and> test_dataset st1 \<noteq> []
           \<and> st = st1\<lparr>printed := printed st1 @
                 [Rule, TestSetEvaluation (evaluate K (model st1) (test_dataset st1)), Rule]\<rparr>"
  using assms
  by (auto simp: train_active_learning_models_def model_evaluate_def
      split: sum.splits if_splits)

text \<open>The draws of a run, put together, are what left the pools and what joined the
  training set.\<close>

lemma al_loop_draws:
  assumes "al_loop K S n st = Inr st'"
  shows "pool_negatives st = concat (map fst (al_draws K S n st)) @ pool_negatives st'
     \<and> pool_positives st = concat (map snd (al_draws K S n st)) @ pool_positives st'
     \<and> train_dataset st' =
         train_dataset st @ concat (map (\<lambda>d. fst d @ snd d) (al_draws K S n st))
     \<and> length (al_draws K S n st) = n"
  using assms
proof (induction n arbitrary: st)
  case 0
  then show ?case by simp
next
  case (Suc n)
  from Suc.prems obtain st1 where
    r: "al_round K S st = Inr st1" and l: "al_loop K S n st1 = Inr st'"
    by (auto split: sum.splits)
  note d = al_round_data[OF r]
  let ?kn = "nat (fst (requested K S st))" and ?kp = "nat (snd (requested K S st))"
  from Suc.IH[OF l] have ih:
    "pool_negatives st1 = concat (map fst (al_draws K S n st1)) @ pool_negatives st'"
    "pool_positives st1 = concat (map snd (al_draws K S n st1)) @ pool_positives st'"
    "train_dataset st' =
       train_dataset st1 @ concat (map (\<lambda>d. fst d @ snd d) (al_draws K S n st1))"
    "length (al_draws K S n st1) = n" by simp_all
  have dr: "al_draws K S (Suc n) st =
      (take ?kn (pool_negatives st), take ?kp (pool_positives st)) # al_draws K S n st1"
    using r by simp
  have "pool_negatives st = take ?kn (pool_negatives st) @ drop ?kn (pool_negatives st)"
    by simp
  then have n: "pool_negatives st =
      concat (map fst (al_draws K S (Suc n) st)) @ pool_negatives st'"
    using ih(1) d(1) by (simp only: dr list.map fst_conv concat.simps append_assoc)
  have "pool_positives st = take ?kp (pool_positives st) @ drop ?kp (pool_positives st)"
    by simp
  then have p: "pool_positives st =
      concat (map snd (al_draws K S (Suc n) st)) @ pool_positives st'"
    using ih(2) d(2) by (simp only: dr list.map snd_conv concat.simps append_assoc)
  have t: "train_dataset st' =
      train_dataset st @ concat (map (\<lambda>d. fst d @ snd d) (al_draws K S (Suc n) st))"
    using ih(3) d(3) unfolding dr by simp
  have "length (al_draws K S (Suc n) st) = Suc n" using ih(4) unfolding dr by simp
  with n p t show ?case by blast
qed

section \<open>Concrete runs of the small classifier\<close>

lemma toy_sel:
  "create_model toy = 0" "compile toy m = m" "train_epoch toy tr m = (m + 1, 0, 0)"
  "validate toy m va = (of_nat m, 0)" "evaluate toy m te = (0, 0, 3, 1)"
  by (simp_all add: toy_def)

lemma toy_fit_first:
  "fit_result toy tr va 0 \<lparr>best = None, saved = f0\<rparr> =
     (5, \<lparr>best = Some 1, saved = Some 1\<rparr>,
      \<lparr>h_loss = [0, 0, 0, 0, 0], h_val_loss = [1, 2, 3, 4, 5],
       h_binary_accuracy = [0, 0, 0, 0, 0], h_val_binary_accuracy = [0, 0, 0, 0, 0]\<rparr>)"
  by (simp add: fit_result_def epochs_def patience_def toy_def eval_nat_numeral
      early_on_train_begin_def empty_history_def checkpoint_on_epoch_end_def
      early_on_epoch_end_def improves_def Let_def)

lemma toy_fit_second:
  "fit_result toy tr va 5 \<lparr>best = Some 1, saved = s\<rparr> =
     (10, \<lparr>best = Some 1, saved = s\<rparr>,
      \<lparr>h_loss = [0, 0, 0, 0, 0], h_val_loss = [6, 7, 8, 9, 10],
       h_binary_accuracy = [0, 0, 0, 0, 0], h_val_binary_accuracy = [0, 0, 0, 0, 0]\<rparr>)"
  by (simp add: fit_result_def epochs_def patience_def toy_def eval_nat_numeral
      early_on_train_begin_def empty_history_def checkpoint_on_epoch_end_def
      early_on_epoch_end_def improves_def Let_def)

lemma toy_al_start: "al_start toy None toy_partition = Inr toy_start"
  by (simp add: al_start_def fit_def toy_sel toy_fit_first toy_partition_def toy_start_def
      append_history_def)

lemma toy_al_start_ample: "al_start toy None toy_partition_ample = Inr toy_start_ample"
  by (simp add: al_start_def fit_def toy_sel toy_fit_first toy_partition_ample_def
      toy_start_ample_def toy_start_def append_history_def)

lemma toy_requested: "requested toy 8 toy_start = (6, 2)"
  by (simp add: requested_def toy_sel sample_ratios_def sample_count_def py_int_def Let_def)

lemma toy_requested_ample: "requested toy 8 toy_start_ample = (6, 2)"
  by (simp add: requested_def toy_sel sample_ratios_def sample_count_def py_int_def Let_def)

lemma toy_sample_step: "sample_step toy 8 toy_start = Inr toy_sampled"
  by (simp add: sample_step_eq toy_requested int64_max_def)
     (simp add: toy_start_def toy_sampled_def toy_sel sample_ratios_def)

lemma toy_sample_step_ample: "sample_step toy 8 toy_start_ample = Inr toy_sampled_ample"
  by (simp add: sample_step_eq toy_requested_ample int64_max_def)
     (simp add: toy_start_def toy_start_ample_def toy_sampled_ample_def toy_sel
        sample_ratios_def)

lemma toy_retrain_step: "retrain_step toy toy_sampled = Inr toy_retrained"
  by (simp add: retrain_step_def fit_def toy_sel toy_start_def toy_sampled_def
      toy_retrained_def toy_fit_second append_history_def)

lemma toy_round: "al_round toy 8 toy_start = Inr (toy_retrained\<lparr>model := 1\<rparr>)"
  by (simp add: al_round_def toy_sample_step toy_retrain_step load_model_def)
     (simp add: toy_retrained_def toy_sampled_def toy_start_def)

lemma toy_loop: "al_loop toy 8 1 toy_start = Inr (toy_retrained\<lparr>model := 1\<rparr>)"
  by (simp add: toy_round)

lemma toy_fields:
  "train_dataset toy_start = [0, 1, 2, 3, 4, 5, 6, 7]"
  "pool_negatives toy_start = [100]" "pool_positives toy_start = [200, 201, 202]"
  "val_dataset toy_start = [10, 11]" "test_dataset toy_start = [20, 21]"
  "model toy_start = 5" "val_losses toy_start = [1, 2, 3, 4, 5]"
  "printed toy_start = [StartingToTrain 8]"
  "train_dataset toy_retrained = [0, 1, 2, 3, 4, 5, 6, 7, 100, 200, 201]"
  "pool_negatives toy_retrained = []"
  "pool_positives toy_retrained = [202]"
  "val_dataset toy_retrained = [10, 11]"
  "test_dataset toy_retrained = [20, 21]"
  "model toy_retrained = 10"
  "saved (checkpoint toy_retrained) = Some 1"
  "val_losses toy_retrained = [1, 2, 3, 4, 5, 6, 7, 8, 9, 10]"
  "printed toy_retrained =
     [StartingToTrain 8, Rule, IncorrectlyClassified 3 1, SampleRatio (1 / 4) (3 / 4),
      StartingTraining 11, Rule]"
  by (simp_all add: toy_start_def toy_sampled_def toy_retrained_def)

lemma toy_fields_ample:
  "train_dataset toy_start_ample = [0, 1, 2]"
  "pool_negatives toy_start_ample = [100, 101, 102, 103, 104, 105]"
  "pool_positives toy_start_ample = [200, 201, 202]"
  "test_dataset toy_start_ample = [20, 21]"
  "printed toy_start_ample = [StartingToTrain 3]"
  "train_dataset toy_sampled_ample = [0, 1, 2, 100, 101, 102, 103, 104, 105, 200, 201]"
  "printed toy_sampled_ample =
     [StartingToTrain 3, Rule, IncorrectlyClassified 3 1, SampleRatio (1 / 4) (3 / 4),
      StartingTraining 11, Rule]"
  by (simp_all add: toy_start_def toy_start_ample_def toy_sampled_ample_def)

lemma mset_draws:
  "mset (concat (map (\<lambda>d. fst d @ snd d) ds))
     = mset (concat (map fst ds)) + mset (concat (map snd ds))"
  by (induction ds) auto

lemma al_loop_distinct:
  assumes "al_loop K S n st = Inr st'"
    "distinct (train_dataset st @ pool_negatives st @ pool_positives st)"
  shows "distinct (train_dataset st' @ pool_negatives st' @ pool_positives st')"
proof -
  let ?ds = "al_draws K S n st"
  from al_loop_draws[OF assms(1)] have
    m: "pool_negatives st = concat (map fst ?ds) @ pool_negatives st'"
       "pool_positives st = concat (map snd ?ds) @ pool_positives st'"
       "train_dataset st' = train_dataset st @ concat (map (\<lambda>d. fst d @ snd d) ?ds)"
    by simp_all
  have "mset (train_dataset st' @ pool_negatives st' @ pool_positives st')
      = mset (train_dataset st) + mset (concat (map (\<lambda>d. fst d @ snd d) ?ds))
        + mset (pool_negatives st') + mset (pool_positives st')"
    by (simp add: m(3))
  also have "\<dots> = mset (train_dataset st)
        + (mset (concat (map fst ?ds)) + mset (pool_negatives st'))
        + (mset (concat (map snd ?ds)) + mset (pool_positives st'))"
    by (simp add: mset_draws)
  also have "\<dots> = mset (train_dataset st @ pool_negatives st @ pool_positives st)"
    using m(1,2) by (metis mset_append add.assoc)
  finally have "mset (train_dataset st' @ pool_negatives st' @ pool_positives st')
      = mset (train_dataset st @ pool_negatives st @ pool_positives st)" .
  from mset_eq_imp_distinct_iff[OF this] assms(2) show ?thesis by simp
qed

lemma round_in_run_succeeds:
  assumes "al_start K f0 p = Inr st0" "al_loop K S n st0 = Inr st"
    "test_dataset p \<noteq> []" "int S \<le> int64_max"
  shows "\<exists>st'. al_round K S st = Inr st'"
proof -
  note a = al_start_Inr[OF assms(1)]
  have i: "al_inv K st" using al_loop_inv[OF a(9) assms(2)] .
  have f: "val_dataset st = val_dataset p" "test_dataset st = test_dataset p"
    using al_loop_fixed[OF assms(2)] a(3,4) by simp_all
  have "train_dataset st = train_dataset st0
      @ concat (map (\<lambda>d. fst d @ snd d) (al_draws K S n st0))"
    using al_loop_draws[OF assms(2)] by simp
  then have t: "train_dataset st \<noteq> []" using a(1,5) by simp
  show ?thesis
    using i f t a(2) assms(3,4) by (intro al_round_succeeds) simp_all
qed

section \<open>Claims about the draws and the training set\<close>

text \<open>
  C5. A draw of \<open>k\<close> examples from a pool that holds at least \<open>k\<close> (a dataset holds
  at most \<open>int64_max\<close> examples) gives the first \<open>k\<close> examples in their order and
  leaves the others, \<open>k\<close> fewer than before. A round that goes through draws in this
  way: with \<open>k_neg\<close> and \<open>k_pos\<close> the numbers it asks for, it appends the first
  \<open>k_neg\<close> negatives and the first \<open>k_pos\<close> positives of its pools to the training
  set and leaves the pools without them; and every round of a run with a test set that
  is not empty and a sampling size within \<open>int64_max\<close> goes through. Over \<open>n\<close> rounds
  the \<open>n\<close> draws, one after the other, are the front of each pool as it was at the
  start, what is left of the pool is the rest, and what joined the training set is
  these draws: no example is drawn twice, none returns to a pool, and when no example
  occurs twice at the start none occurs twice at the end.
\<close>

theorem draw_contract:
  "(0 \<le> k \<and> k \<le> int (length pool) \<and> int (length pool) \<le> int64_max \<longrightarrow>
      ds_take k pool = Inr (take (nat k) pool) \<and> ds_skip k pool = Inr (drop (nat k) pool)
      \<and> take (nat k) pool @ drop (nat k) pool = pool
      \<and> int (length (take (nat k) pool)) = k
      \<and> int (length (drop (nat k) pool)) = int (length pool) - k)
   \<and> (al_round K S st = Inr st' \<longrightarrow>
        0 \<le> fst (requested K S st) \<and> 0 \<le> snd (requested K S st)
        \<and> train_dataset st' =
            train_dataset st @ take (nat (fst (requested K S st))) (pool_negatives st)
                             @ take (nat (snd (requested K S st))) (pool_positives st)
        \<and> pool_negatives st' = drop (nat (fst (requested K S st))) (pool_negatives st)
        \<and> pool_positives st' = drop (nat (snd (requested K S st))) (pool_positives st))
   \<and> (al_start K f0 p = Inr st0 \<and> al_loop K S m st0 = Inr st \<and> test_dataset p \<noteq> []
        \<and> int S \<le> int64_max \<longrightarrow> (\<exists>st1. al_round K S st = Inr st1))
   \<and> (al_loop K S n st = Inr st'' \<longrightarrow>
        length (al_draws K S n st) = n
        \<and> pool_negatives st = concat (map fst (al_draws K S n st)) @ pool_negatives st''
        \<and> pool_positives st = concat (map snd (al_draws K S n st)) @ pool_positives st''
        \<and> train_dataset st'' =
            train_dataset st @ concat (map (\<lambda>d. fst d @ snd d) (al_draws K S n st))
        \<and> (distinct (train_dataset st @ pool_negatives st @ pool_positives st) \<longrightarrow>
             distinct (train_dataset st'' @ pool_negatives st'' @ pool_positives st'')))"
proof -
  have a: "0 \<le> k \<and> k \<le> int (length pool) \<and> int (length pool) \<le> int64_max \<longrightarrow>
      ds_take k pool = Inr (take (nat k) pool) \<and> ds_skip k pool = Inr (drop (nat k) pool)
      \<and> take (nat k) pool @ drop (nat k) pool = pool
      \<and> int (length (take (nat k) pool)) = k
      \<and> int (length (drop (nat k) pool)) = int (length pool) - k"
    by (auto simp: ds_take_Inr ds_skip_Inr)
  have b: "al_round K S st = Inr st' \<longrightarrow>
        0 \<le> fst (requested K S st) \<and> 0 \<le> snd (requested K S st)
        \<and> train_dataset st' =
            train_dataset st @ take (nat (fst (requested K S st))) (pool_negatives st)
                             @ take (nat (snd (requested K S st))) (pool_positives st)
        \<and> pool_negatives st' = drop (nat (fst (requested K S st))) (pool_negatives st)
        \<and> pool_positives st' = drop (nat (snd (requested K S st))) (pool_positives st)"
    using requested_bounds[of K S st] al_round_data(1,2,3)[of K S st st'] by blast
  have c: "al_start K f0 p = Inr st0 \<and> al_loop K S m st0 = Inr st \<and> test_dataset p \<noteq> []
        \<and> int S \<le> int64_max \<longrightarrow> (\<exists>st1. al_round K S st = Inr st1)"
    using round_in_run_succeeds[of K f0 p st0 S m st] by blast
  have d: "al_loop K S n st = Inr st'' \<longrightarrow>
        length (al_draws K S n st) = n
        \<and> pool_negatives st = concat (map fst (al_draws K S n st)) @ pool_negatives st''
        \<and> pool_positives st = concat (map snd (al_draws K S n st)) @ pool_positives st''
        \<and> train_dataset st'' =
            train_dataset st @ concat (map (\<lambda>d. fst d @ snd d) (al_draws K S n st))
        \<and> (distinct (train_dataset st @ pool_negatives st @ pool_positives st) \<longrightarrow>
             distinct (train_dataset st'' @ pool_negatives st'' @ pool_positives st''))"
    using al_loop_draws[of K S n st st''] al_loop_distinct[of K S n st st''] by blast
  from a b c d show ?thesis by blast
qed

lemma toy_draws: "al_draws toy 8 1 toy_start = [([100], [200, 201])]"
  by (simp add: toy_round toy_requested toy_fields)

theorem draw_contract_witness:
  "(0::int) \<le> 2 \<and> (2::int) \<le> int (length [200, 201, 202 :: nat])
   \<and> int (length [200, 201, 202 :: nat]) \<le> int64_max
   \<and> ds_take 2 [200, 201, 202 :: nat] = Inr [200, 201]
   \<and> ds_skip 2 [200, 201, 202 :: nat] = Inr [202]
   \<and> al_start toy None toy_partition = Inr toy_start
   \<and> al_loop toy 8 0 toy_start = Inr toy_start
   \<and> test_dataset toy_partition \<noteq> [] \<and> int 8 \<le> int64_max
   \<and> al_round toy 8 toy_start = Inr (toy_retrained\<lparr>model := 1\<rparr>)
   \<and> train_dataset (toy_retrained\<lparr>model := 1\<rparr>) =
        train_dataset toy_start @ take 6 (pool_negatives toy_start)
                                @ take 2 (pool_positives toy_start)
   \<and> pool_negatives (toy_retrained\<lparr>model := 1\<rparr>) = drop 6 (pool_negatives toy_start)
   \<and> pool_positives (toy_retrained\<lparr>model := 1\<rparr>) = drop 2 (pool_positives toy_start)
   \<and> al_loop toy 8 1 toy_start = Inr (toy_retrained\<lparr>model := 1\<rparr>)
   \<and> al_draws toy 8 1 toy_start = [([100], [200, 201])]
   \<and> pool_positives toy_start = [200, 201] @ pool_positives (toy_retrained\<lparr>model := 1\<rparr>)
   \<and> distinct (train_dataset toy_start @ pool_negatives toy_start @ pool_positives toy_start)
   \<and> distinct (train_dataset (toy_retrained\<lparr>model := 1\<rparr>)
        @ pool_negatives (toy_retrained\<lparr>model := 1\<rparr>)
        @ pool_positives (toy_retrained\<lparr>model := 1\<rparr>))"
proof -
  have h1: "(0::int) \<le> 2 \<and> (2::int) \<le> int (length [200, 201, 202 :: nat])
      \<and> int (length [200, 201, 202 :: nat]) \<le> int64_max"
    by (simp add: int64_max_def)
  have h2: "al_round toy 8 toy_start = Inr (toy_retrained\<lparr>model := 1\<rparr>)" by (rule toy_round)
  have h3: "al_start toy None toy_partition = Inr toy_start
      \<and> al_loop toy 8 0 toy_start = Inr toy_start
      \<and> test_dataset toy_partition \<noteq> [] \<and> int 8 \<le> int64_max"
  proof -
    have "test_dataset toy_partition \<noteq> []" by (simp add: toy_partition_def)
    then show ?thesis by (simp add: toy_al_start int64_max_def)
  qed
  have h4: "al_loop toy 8 1 toy_start = Inr (toy_retrained\<lparr>model := 1\<rparr>)" by (rule toy_loop)
  have h5: "distinct (train_dataset toy_start @ pool_negatives toy_start
      @ pool_positives toy_start)"
    by (simp add: toy_fields)
  note t = draw_contract[of 2 "[200, 201, 202 :: nat]" toy 8 toy_start
      "toy_retrained\<lparr>model := 1\<rparr>" None toy_partition toy_start 0 1
      "toy_retrained\<lparr>model := 1\<rparr>"]
  from t h1 have c1: "ds_take 2 [200, 201, 202 :: nat] = Inr [200, 201]
      \<and> ds_skip 2 [200, 201, 202 :: nat] = Inr [202]"
    by simp
  from t h2 have c2: "train_dataset (toy_retrained\<lparr>model := 1\<rparr>) =
        train_dataset toy_start @ take 6 (pool_negatives toy_start)
                                @ take 2 (pool_positives toy_start)
   \<and> pool_negatives (toy_retrained\<lparr>model := 1\<rparr>) = drop 6 (pool_negatives toy_start)
   \<and> pool_positives (toy_retrained\<lparr>model := 1\<rparr>) = drop 2 (pool_positives toy_start)"
    by (simp add: toy_requested)
  from t h4 h5 have c3: "pool_positives toy_start =
        concat (map snd (al_draws toy 8 1 toy_start))
        @ pool_positives (toy_retrained\<lparr>model := 1\<rparr>)
     \<and> distinct (train_dataset (toy_retrained\<lparr>model := 1\<rparr>)
        @ pool_negatives (toy_retrained\<lparr>model := 1\<rparr>)
        @ pool_positives (toy_retrained\<lparr>model := 1\<rparr>))"
    by blast
  then have c4: "pool_positives toy_start =
        [200, 201] @ pool_positives (toy_retrained\<lparr>model := 1\<rparr>)
     \<and> distinct (train_dataset (toy_retrained\<lparr>model := 1\<rparr>)
        @ pool_negatives (toy_retrained\<lparr>model := 1\<rparr>)
        @ pool_positives (toy_retrained\<lparr>model := 1\<rparr>))"
    unfolding toy_draws by simp
  from h1 h2 h3 h4 h5 c1 c2 c4 toy_draws show ?thesis by blast
qed

text \<open>
  C6, as the code has it. With \<open>k_neg\<close> and \<open>k_pos\<close> the numbers a round asks for,
  the training set grows by \<open>min k_neg (size of the negative pool) + min k_pos (size of
  the positive pool)\<close>, which is \<open>k_pos + k_neg\<close> when both pools hold what is asked of
  them; the sampling goes through when the test set is not empty and the sampling size
  is within \<open>int64_max\<close>. The rest of the round leaves the training set alone; over
  any number of rounds it never shrinks, and the validation and test sets stay as they
  were.
\<close>

theorem train_growth_clamped:
  "(sample_step K S st = Inr st1 \<longrightarrow>
      length (train_dataset st1) =
        length (train_dataset st)
        + min (nat (fst (requested K S st))) (length (pool_negatives st))
        + min (nat (snd (requested K S st))) (length (pool_positives st))
      \<and> (fst (requested K S st) \<le> int (length (pool_negatives st))
           \<and> snd (requested K S st) \<le> int (length (pool_positives st)) \<longrightarrow>
           int (length (train_dataset st1)) =
             int (length (train_dataset st)) + snd (requested K S st)
             + fst (requested K S st)))
   \<and> (test_dataset st \<noteq> [] \<and> int S \<le> int64_max \<longrightarrow> (\<exists>st2. sample_step K S st = Inr st2))
   \<and> (al_round K S st = Inr st' \<longrightarrow>
        (\<exists>st2. sample_step K S st = Inr st2 \<and> train_dataset st' = train_dataset st2)
        \<and> length (train_dataset st') =
            length (train_dataset st)
            + min (nat (fst (requested K S st))) (length (pool_negatives st))
            + min (nat (snd (requested K S st))) (length (pool_positives st))
        \<and> length (train_dataset st) \<le> length (train_dataset st')
        \<and> val_dataset st' = val_dataset st \<and> test_dataset st' = test_dataset st)
   \<and> (al_loop K S n st = Inr st'' \<longrightarrow>
        length (train_dataset st) \<le> length (train_dataset st'')
        \<and> val_dataset st'' = val_dataset st \<and> test_dataset st'' = test_dataset st)"
proof -
  let ?kn = "fst (requested K S st)" and ?kp = "snd (requested K S st)"
  let ?grown = "length (train_dataset st) + min (nat ?kn) (length (pool_negatives st))
      + min (nat ?kp) (length (pool_positives st))"
  have nn: "0 \<le> ?kn" "0 \<le> ?kp" using requested_bounds[of K S st] by simp_all
  have a: "sample_step K S st = Inr st1 \<longrightarrow>
      length (train_dataset st1) = ?grown
      \<and> (?kn \<le> int (length (pool_negatives st))
           \<and> ?kp \<le> int (length (pool_positives st)) \<longrightarrow>
           int (length (train_dataset st1)) = int (length (train_dataset st)) + ?kp + ?kn)"
  proof
    assume s: "sample_step K S st = Inr st1"
    have len: "length (train_dataset st1) = ?grown"
      by (simp add: sample_step_Inr(6)[OF s] min.commute)
    then show "length (train_dataset st1) = ?grown
      \<and> (?kn \<le> int (length (pool_negatives st))
           \<and> ?kp \<le> int (length (pool_positives st)) \<longrightarrow>
           int (length (train_dataset st1)) = int (length (train_dataset st)) + ?kp + ?kn)"
      using nn by auto
  qed
  have b: "test_dataset st \<noteq> [] \<and> int S \<le> int64_max \<longrightarrow>
      (\<exists>st2. sample_step K S st = Inr st2)"
    using sample_step_succeeds[of st S K] by blast
  have c: "al_round K S st = Inr st' \<longrightarrow>
        (\<exists>st2. sample_step K S st = Inr st2 \<and> train_dataset st' = train_dataset st2)
        \<and> length (train_dataset st') = ?grown
        \<and> length (train_dataset st) \<le> length (train_dataset st')
        \<and> val_dataset st' = val_dataset st \<and> test_dataset st' = test_dataset st"
  proof
    assume r: "al_round K S st = Inr st'"
    from al_round_Inr[OF r] obtain st2 st3 m where
      s2: "sample_step K S st = Inr st2" and s3: "retrain_step K st2 = Inr st3"
      and s: "st' = st3\<lparr>model := m\<rparr>" by blast
    have e: "train_dataset st' = train_dataset st2"
      by (simp add: s retrain_step_Inr(5)[OF s3])
    have len: "length (train_dataset st') = ?grown"
      by (simp add: al_round_data(3)[OF r] min.commute)
    with s2 e al_round_data(4,5)[OF r]
    show "(\<exists>st2. sample_step K S st = Inr st2 \<and> train_dataset st' = train_dataset st2)
        \<and> length (train_dataset st') = ?grown
        \<and> length (train_dataset st) \<le> length (train_dataset st')
        \<and> val_dataset st' = val_dataset st \<and> test_dataset st' = test_dataset st"
      by auto
  qed
  have d: "al_loop K S n st = Inr st'' \<longrightarrow>
        length (train_dataset st) \<le> length (train_dataset st'')
        \<and> val_dataset st'' = val_dataset st \<and> test_dataset st'' = test_dataset st"
  proof
    assume l: "al_loop K S n st = Inr st''"
    from al_loop_draws[OF l] have "length (train_dataset st) \<le> length (train_dataset st'')"
      by simp
    with al_loop_fixed[OF l] show "length (train_dataset st) \<le> length (train_dataset st'')
        \<and> val_dataset st'' = val_dataset st \<and> test_dataset st'' = test_dataset st" by simp
  qed
  from a b c d show ?thesis by blast
qed

theorem train_growth_clamped_witness:
  "sample_step toy 8 toy_start_ample = Inr toy_sampled_ample
   \<and> fst (requested toy 8 toy_start_ample) \<le> int (length (pool_negatives toy_start_ample))
   \<and> snd (requested toy 8 toy_start_ample) \<le> int (length (pool_positives toy_start_ample))
   \<and> int (length (train_dataset toy_sampled_ample)) =
          int (length (train_dataset toy_start_ample)) + snd (requested toy 8 toy_start_ample)
          + fst (requested toy 8 toy_start_ample)
   \<and> test_dataset toy_start_ample \<noteq> [] \<and> int 8 \<le> int64_max
   \<and> al_round toy 8 toy_start = Inr (toy_retrained\<lparr>model := 1\<rparr>)
   \<and> length (train_dataset (toy_retrained\<lparr>model := 1\<rparr>)) = 8 + min 6 1 + min 2 3
   \<and> al_loop toy 8 1 toy_start = Inr (toy_retrained\<lparr>model := 1\<rparr>)
   \<and> length (train_dataset toy_start) \<le> length (train_dataset (toy_retrained\<lparr>model := 1\<rparr>))
   \<and> val_dataset (toy_retrained\<lparr>model := 1\<rparr>) = val_dataset toy_start
   \<and> test_dataset (toy_retrained\<lparr>model := 1\<rparr>) = test_dataset toy_start"
proof -
  have h0: "sample_step toy 8 toy_start_ample = Inr toy_sampled_ample"
    by (rule toy_sample_step_ample)
  have h1: "fst (requested toy 8 toy_start_ample) \<le> int (length (pool_negatives toy_start_ample))
   \<and> snd (requested toy 8 toy_start_ample) \<le> int (length (pool_positives toy_start_ample))"
    by (simp add: toy_requested_ample toy_fields_ample)
  have h2: "al_round toy 8 toy_start = Inr (toy_retrained\<lparr>model := 1\<rparr>)" by (rule toy_round)
  have h3: "al_loop toy 8 1 toy_start = Inr (toy_retrained\<lparr>model := 1\<rparr>)" by (rule toy_loop)
  have h4: "test_dataset toy_start_ample \<noteq> [] \<and> int 8 \<le> int64_max"
    by (simp add: toy_fields_ample int64_max_def)
  from train_growth_clamped[of toy 8 toy_start_ample toy_sampled_ample] h0 h1
  have c1: "int (length (train_dataset toy_sampled_ample)) =
          int (length (train_dataset toy_start_ample)) + snd (requested toy 8 toy_start_ample)
          + fst (requested toy 8 toy_start_ample)" by blast
  from train_growth_clamped[of toy 8 toy_start _ "toy_retrained\<lparr>model := 1\<rparr>" 1
      "toy_retrained\<lparr>model := 1\<rparr>"] h2 h3
  have c2: "length (train_dataset (toy_retrained\<lparr>model := 1\<rparr>)) =
        length (train_dataset toy_start)
        + min (nat (fst (requested toy 8 toy_start))) (length (pool_negatives toy_start))
        + min (nat (snd (requested toy 8 toy_start))) (length (pool_positives toy_start))
   \<and> length (train_dataset toy_start) \<le> length (train_dataset (toy_retrained\<lparr>model := 1\<rparr>))
   \<and> val_dataset (toy_retrained\<lparr>model := 1\<rparr>) = val_dataset toy_start
   \<and> test_dataset (toy_retrained\<lparr>model := 1\<rparr>) = test_dataset toy_start" by blast
  then have c3: "length (train_dataset (toy_retrained\<lparr>model := 1\<rparr>)) = 8 + min 6 1 + min 2 3"
    by (simp add: toy_requested toy_fields)
  from h0 h1 h2 h3 h4 c1 c2 c3 show ?thesis by blast
qed

text \<open>
  A round that asks for six negatives and two positives of a pool with one negative:
  the training set grows from 8 to 11 examples, not to 16.
\<close>

theorem train_growth_counterexample:
  "requested toy 8 toy_start = (6, 2)
   \<and> length (train_dataset toy_start) = 8
   \<and> al_round toy 8 toy_start = Inr (toy_retrained\<lparr>model := 1\<rparr>)
   \<and> length (train_dataset (toy_retrained\<lparr>model := 1\<rparr>)) = 11"
  by (simp add: toy_requested toy_round toy_fields)

text \<open>
  C7, as the code has it. A draw that asks for more than a pool holds, with a count
  within \<open>int64_max\<close>, gives all that is left and empties the pool; a count beyond
  \<open>int64_max\<close> is an error. In a run with a test set that is not empty and a sampling
  size within \<open>int64_max\<close>, every round goes through without an error, with these
  draws (a pool that holds less than is asked of it is emptied into the training set);
  the round prints its five usual lines and nothing about the shortfall. With training,
  validation and test sets that are not empty the whole function returns, for every
  number of rounds.
\<close>

theorem exhaustion_is_graceful:
  "(int (length pool) < k \<and> k \<le> int64_max \<longrightarrow>
      ds_take k pool = Inr pool \<and> ds_skip k pool = Inr [])
   \<and> (int64_max < k \<longrightarrow>
        ds_take k pool = Inl OverflowError \<and> ds_skip k pool = Inl OverflowError)
   \<and> (al_start K f0 p = Inr st0 \<and> al_loop K S n st0 = Inr st \<and> test_dataset p \<noteq> []
        \<and> int S \<le> int64_max \<longrightarrow>
        (\<exists>st'. al_round K S st = Inr st'
           \<and> pool_negatives st' = drop (nat (fst (requested K S st))) (pool_negatives st)
           \<and> pool_positives st' = drop (nat (snd (requested K S st))) (pool_positives st)
           \<and> train_dataset st' =
               train_dataset st @ take (nat (fst (requested K S st))) (pool_negatives st)
                                @ take (nat (snd (requested K S st))) (pool_positives st)
           \<and> (int (length (pool_negatives st)) < fst (requested K S st) \<longrightarrow>
                pool_negatives st' = []
                \<and> take (nat (fst (requested K S st))) (pool_negatives st) = pool_negatives st)
           \<and> (int (length (pool_positives st)) < snd (requested K S st) \<longrightarrow>
                pool_positives st' = []
                \<and> take (nat (snd (requested K S st))) (pool_positives st) = pool_positives st)
           \<and> (\<exists>fn fp ro rz. printed st' = printed st @
                 [Rule, IncorrectlyClassified fn fp, SampleRatio ro rz,
                  StartingTraining (length (train_dataset st')), Rule])))
   \<and> (train_dataset p \<noteq> [] \<and> val_dataset p \<noteq> [] \<and> test_dataset p \<noteq> []
        \<and> int S \<le> int64_max \<longrightarrow>
        (\<exists>st_end. train_active_learning_models K f0 p N S = Inr st_end))"
proof -
  have a: "int (length pool) < k \<and> k \<le> int64_max \<longrightarrow>
      ds_take k pool = Inr pool \<and> ds_skip k pool = Inr []"
    by (auto simp: ds_take_def ds_skip_def int64_min_def)
  have b: "int64_max < k \<longrightarrow>
        ds_take k pool = Inl OverflowError \<and> ds_skip k pool = Inl OverflowError"
    by (simp add: ds_take_def ds_skip_def)
  have c: "al_start K f0 p = Inr st0 \<and> al_loop K S n st0 = Inr st \<and> test_dataset p \<noteq> []
        \<and> int S \<le> int64_max \<longrightarrow>
        (\<exists>st'. al_round K S st = Inr st'
           \<and> pool_negatives st' = drop (nat (fst (requested K S st))) (pool_negatives st)
           \<and> pool_positives st' = drop (nat (snd (requested K S st))) (pool_positives st)
           \<and> train_dataset st' =
               train_dataset st @ take (nat (fst (requested K S st))) (pool_negatives st)
                                @ take (nat (snd (requested K S st))) (pool_positives st)
           \<and> (int (length (pool_negatives st)) < fst (requested K S st) \<longrightarrow>
                pool_negatives st' = []
                \<and> take (nat (fst (requested K S st))) (pool_negatives st) = pool_negatives st)
           \<and> (int (length (pool_positives st)) < snd (requested K S st) \<longrightarrow>
                pool_positives st' = []
                \<and> take (nat (snd (requested K S st))) (pool_positives st) = pool_positives st)
           \<and> (\<exists>fn fp ro rz. printed st' = printed st @
                 [Rule, IncorrectlyClassified fn fp, SampleRatio ro rz,
                  StartingTraining (length (train_dataset st')), Rule]))"
  proof
    assume h: "al_start K f0 p = Inr st0 \<and> al_loop K S n st0 = Inr st
        \<and> test_dataset p \<noteq> [] \<and> int S \<le> int64_max"
    then obtain st' where r: "al_round K S st = Inr st'"
      using round_in_run_succeeds[of K f0 p st0 S n st] by blast
    note d = al_round_data[OF r]
    have e1: "int (length (pool_negatives st)) < fst (requested K S st) \<longrightarrow>
                pool_negatives st' = []
                \<and> take (nat (fst (requested K S st))) (pool_negatives st) = pool_negatives st"
      by (auto simp: d(1))
    have e2: "int (length (pool_positives st)) < snd (requested K S st) \<longrightarrow>
                pool_positives st' = []
                \<and> take (nat (snd (requested K S st))) (pool_positives st) = pool_positives st"
      by (auto simp: d(2))
    from r d(1,2,3,6) e1 e2 show "\<exists>st'. al_round K S st = Inr st'
           \<and> pool_negatives st' = drop (nat (fst (requested K S st))) (pool_negatives st)
           \<and> pool_positives st' = drop (nat (snd (requested K S st))) (pool_positives st)
           \<and> train_dataset st' =
               train_dataset st @ take (nat (fst (requested K S st))) (pool_negatives st)
                                @ take (nat (snd (requested K S st))) (pool_positives st)
           \<and> (int (length (pool_negatives st)) < fst (requested K S st) \<longrightarrow>
                pool_negatives st' = []
                \<and> take (nat (fst (requested K S st))) (pool_negatives st) = pool_negatives st)
           \<and> (int (length (pool_positives st)) < snd (requested K S st) \<longrightarrow>
                pool_positives st' = []
                \<and> take (nat (snd (requested K S st))) (pool_positives st) = pool_positives st)
           \<and> (\<exists>fn fp ro rz. printed st' = printed st @
                 [Rule, IncorrectlyClassified fn fp, SampleRatio ro rz,
                  StartingTraining (length (train_dataset st')), Rule])"
      by blast
  qed
  have d: "train_dataset p \<noteq> [] \<and> val_dataset p \<noteq> [] \<and> test_dataset p \<noteq> []
        \<and> int S \<le> int64_max \<longrightarrow>
        (\<exists>st_end. train_active_learning_models K f0 p N S = Inr st_end)"
    using run_succeeds[of p S K f0 N] by blast
  from a b c d show ?thesis by blast
qed

lemma toy_partition_nonempty:
  "train_dataset toy_partition \<noteq> []" "val_dataset toy_partition \<noteq> []"
  "test_dataset toy_partition \<noteq> []"
  by (simp_all add: toy_partition_def)

theorem exhaustion_is_graceful_witness:
  "int (length [100::nat]) < 6 \<and> (6::int) \<le> int64_max
   \<and> ds_take 6 [100::nat] = Inr [100] \<and> ds_skip 6 [100::nat] = Inr []
   \<and> int64_max < 100000000000000000000
   \<and> ds_take 100000000000000000000 [100::nat] = Inl OverflowError
   \<and> al_start toy None toy_partition = Inr toy_start
   \<and> al_loop toy 8 0 toy_start = Inr toy_start
   \<and> train_dataset toy_partition \<noteq> [] \<and> val_dataset toy_partition \<noteq> []
   \<and> test_dataset toy_partition \<noteq> [] \<and> int 8 \<le> int64_max
   \<and> int (length (pool_negatives toy_start)) < fst (requested toy 8 toy_start)
   \<and> al_round toy 8 toy_start = Inr (toy_retrained\<lparr>model := 1\<rparr>)
   \<and> pool_negatives (toy_retrained\<lparr>model := 1\<rparr>) = []
   \<and> train_dataset (toy_retrained\<lparr>model := 1\<rparr>) =
        train_dataset toy_start @ pool_negatives toy_start @ take 2 (pool_positives toy_start)
   \<and> (\<exists>st_end. train_active_learning_models toy None toy_partition 3 8 = Inr st_end)"
proof -
  have h1: "int (length [100::nat]) < 6 \<and> (6::int) \<le> int64_max"
    by (simp add: int64_max_def)
  have h2: "int64_max < 100000000000000000000" by (simp add: int64_max_def)
  have h3: "al_start toy None toy_partition = Inr toy_start
      \<and> al_loop toy 8 0 toy_start = Inr toy_start"
    by (simp add: toy_al_start)
  have h4: "train_dataset toy_partition \<noteq> [] \<and> val_dataset toy_partition \<noteq> []
      \<and> test_dataset toy_partition \<noteq> [] \<and> int 8 \<le> int64_max"
    by (simp add: toy_partition_nonempty int64_max_def)
  have h5: "int (length (pool_negatives toy_start)) < fst (requested toy 8 toy_start)"
    by (simp add: toy_requested toy_fields)
  note t = exhaustion_is_graceful[of "[100::nat]" 6 toy None toy_partition toy_start 8 0
      toy_start 3]
  note u = exhaustion_is_graceful[of "[100::nat]" 100000000000000000000]
  from t h1 have c1: "ds_take 6 [100::nat] = Inr [100] \<and> ds_skip 6 [100::nat] = Inr []"
    by blast
  from u h2 have c2: "ds_take 100000000000000000000 [100::nat] = Inl OverflowError"
    by blast
  from t h3 h4 h5 obtain st' where
    r: "al_round toy 8 toy_start = Inr st'" and e: "pool_negatives st' = []"
    and tr: "train_dataset st' =
        train_dataset toy_start
        @ take (nat (fst (requested toy 8 toy_start))) (pool_negatives toy_start)
        @ take (nat (snd (requested toy 8 toy_start))) (pool_positives toy_start)"
    and tk: "take (nat (fst (requested toy 8 toy_start))) (pool_negatives toy_start)
        = pool_negatives toy_start"
    by blast
  from r have s: "st' = toy_retrained\<lparr>model := 1\<rparr>" by (simp add: toy_round)
  have c3: "al_round toy 8 toy_start = Inr (toy_retrained\<lparr>model := 1\<rparr>)
      \<and> pool_negatives (toy_retrained\<lparr>model := 1\<rparr>) = []
      \<and> train_dataset (toy_retrained\<lparr>model := 1\<rparr>) =
        train_dataset toy_start @ pool_negatives toy_start @ take 2 (pool_positives toy_start)"
    using r e tr tk unfolding s by (simp add: toy_requested)
  from t h4 have c4: "\<exists>st_end. train_active_learning_models toy None toy_partition 3 8
      = Inr st_end"
    by blast
  from h1 h2 h3 h4 h5 c1 c2 c3 c4 show ?thesis by blast
qed

text \<open>
  A round that asks for six negatives of a pool with one prints the same five lines as
  a round that asks for six negatives of a pool with six: nothing printed tells the two
  apart.
\<close>

theorem shortfall_not_printed_counterexample:
  "fst (requested toy 8 toy_start) = 6 \<and> length (pool_negatives toy_start) = 1
   \<and> fst (requested toy 8 toy_start_ample) = 6 \<and> length (pool_negatives toy_start_ample) = 6
   \<and> al_round toy 8 toy_start = Inr (toy_retrained\<lparr>model := 1\<rparr>)
   \<and> printed (toy_retrained\<lparr>model := 1\<rparr>) =
        [StartingToTrain 8, Rule, IncorrectlyClassified 3 1, SampleRatio (1 / 4) (3 / 4),
         StartingTraining 11, Rule]
   \<and> printed toy_start = [StartingToTrain 8]
   \<and> sample_step toy 8 toy_start_ample = Inr toy_sampled_ample
   \<and> printed toy_sampled_ample =
        [StartingToTrain 3, Rule, IncorrectlyClassified 3 1, SampleRatio (1 / 4) (3 / 4),
         StartingTraining 11, Rule]
   \<and> printed toy_start_ample = [StartingToTrain 3]"
  by (simp add: toy_requested toy_requested_ample toy_round toy_sample_step_ample
      toy_fields toy_fields_ample)

section \<open>Claims about the checkpoint\<close>

text \<open>
  C2, as the code has it. The model that leaves the function's first \<^verbatim>\<open>fit\<close> is the
  live one: the checkpoint is not loaded before the first round. Every round ends by
  loading \<^verbatim>\<open>AL_Model.h5\<close>: the state after a round is the state its \<^verbatim>\<open>fit\<close> left
  with the model replaced by the content of the file, so the parameters that enter the
  next round are those of the checkpoint, and after one round or more the loop ends
  with the model that the file holds. In a run, the validation loss of the model a
  round loads is the least of the validation losses so far. The function returns the
  model the loop ends with: nothing is loaded after the loop.
\<close>

theorem checkpoint_loaded_every_round:
  "(al_start K f0 p = Inr st0 \<longrightarrow>
      (\<exists>c h. fit K (train_dataset p) (val_dataset p) (compile K (create_model K))
               \<lparr>best = None, saved = f0\<rparr> = Inr (model st0, c, h)))
   \<and> (al_round K S st = Inr st' \<longrightarrow>
        (\<exists>st1 st2. sample_step K S st = Inr st1 \<and> retrain_step K st1 = Inr st2
           \<and> saved (checkpoint st2) = Some (model st')
           \<and> st' = st2\<lparr>model := model st'\<rparr>))
   \<and> (al_loop K S (Suc n) st = Inr st'' \<longrightarrow> saved (checkpoint st'') = Some (model st''))
   \<and> (al_start K f0 p = Inr st0 \<and> al_loop K S n st0 = Inr st \<and> al_round K S st = Inr st'
        \<longrightarrow>
        val_losses st' \<noteq> []
        \<and> fst (validate K (model st') (val_dataset p)) = Min (set (val_losses st')))
   \<and> (train_active_learning_models K f0 p N S = Inr st_end \<longrightarrow>
        (\<exists>st_first st_loop. al_start K f0 p = Inr st_first
           \<and> al_loop K S N st_first = Inr st_loop
           \<and> model st_end = model st_loop))"
proof -
  have a: "al_start K f0 p = Inr st0 \<longrightarrow>
      (\<exists>c h. fit K (train_dataset p) (val_dataset p) (compile K (create_model K))
               \<lparr>best = None, saved = f0\<rparr> = Inr (model st0, c, h))"
    using al_start_model[of K f0 p st0] by blast
  have b: "al_round K S st = Inr st' \<longrightarrow>
        (\<exists>st1 st2. sample_step K S st = Inr st1 \<and> retrain_step K st1 = Inr st2
           \<and> saved (checkpoint st2) = Some (model st')
           \<and> st' = st2\<lparr>model := model st'\<rparr>)"
  proof
    assume r: "al_round K S st = Inr st'"
    from al_round_Inr[OF r] obtain st1 st2 m where
      s: "sample_step K S st = Inr st1" "retrain_step K st1 = Inr st2"
         "saved (checkpoint st2) = Some m" "st' = st2\<lparr>model := m\<rparr>" by blast
    have "saved (checkpoint st2) = Some (model st')" "st' = st2\<lparr>model := model st'\<rparr>"
      using s(3,4) by simp_all
    with s(1,2) show "\<exists>st1 st2. sample_step K S st = Inr st1 \<and> retrain_step K st1 = Inr st2
           \<and> saved (checkpoint st2) = Some (model st')
           \<and> st' = st2\<lparr>model := model st'\<rparr>" by blast
  qed
  have c: "al_loop K S (Suc n) st = Inr st'' \<longrightarrow> saved (checkpoint st'') = Some (model st'')"
  proof
    assume l: "al_loop K S (Suc n) st = Inr st''"
    then obtain st1 where r: "al_round K S st1 = Inr st''"
      by (auto simp only: al_loop_snoc split: sum.splits)
    from al_round_Inr[OF r] obtain st2 m where
      "saved (checkpoint st2) = Some m" "st'' = st2\<lparr>model := m\<rparr>" by blast
    then show "saved (checkpoint st'') = Some (model st'')" by simp
  qed
  have d: "al_start K f0 p = Inr st0 \<and> al_loop K S n st0 = Inr st \<and> al_round K S st = Inr st'
        \<longrightarrow>
        val_losses st' \<noteq> []
        \<and> fst (validate K (model st') (val_dataset p)) = Min (set (val_losses st'))"
  proof
    assume h: "al_start K f0 p = Inr st0 \<and> al_loop K S n st0 = Inr st
        \<and> al_round K S st = Inr st'"
    then have s0: "al_start K f0 p = Inr st0" and l: "al_loop K S n st0 = Inr st"
      and r: "al_round K S st = Inr st'" by simp_all
    note a0 = al_start_Inr[OF s0]
    from al_round_inv[OF al_loop_inv[OF a0(9) l] r] have
      i: "al_inv K st'" and sv: "saved (checkpoint st') = Some (model st')" by simp_all
    have "val_dataset st' = val_dataset p"
      using al_loop_fixed[OF l] al_round_data(4)[OF r] a0(3) by simp
    with al_inv_saved[OF i] sv i
    show "val_losses st' \<noteq> []
        \<and> fst (validate K (model st') (val_dataset p)) = Min (set (val_losses st'))"
      by (auto simp: al_inv_def)
  qed
  have e: "train_active_learning_models K f0 p N S = Inr st_end \<longrightarrow>
        (\<exists>st_first st_loop. al_start K f0 p = Inr st_first
           \<and> al_loop K S N st_first = Inr st_loop
           \<and> model st_end = model st_loop)"
  proof
    assume "train_active_learning_models K f0 p N S = Inr st_end"
    from run_Inr[OF this] obtain st_first st_loop where
      "al_start K f0 p = Inr st_first" "al_loop K S N st_first = Inr st_loop"
      "st_end = st_loop\<lparr>printed := printed st_loop @
         [Rule, TestSetEvaluation (evaluate K (model st_loop) (test_dataset st_loop)), Rule]\<rparr>"
      by blast
    then show "\<exists>st_first st_loop. al_start K f0 p = Inr st_first
           \<and> al_loop K S N st_first = Inr st_loop
           \<and> model st_end = model st_loop" by auto
  qed
  from a b c d e show ?thesis by blast
qed

lemma toy_run_without_rounds:
  "train_active_learning_models toy None toy_partition 0 8 =
     Inr (toy_start\<lparr>printed :=
            [StartingToTrain 8, Rule, TestSetEvaluation (0, 0, 3, 1), Rule]\<rparr>)"
  by (simp add: train_active_learning_models_def toy_al_start model_evaluate_def toy_sel
      toy_fields)

theorem checkpoint_loaded_every_round_witness:
  "al_start toy None toy_partition = Inr toy_start
   \<and> fit toy (train_dataset toy_partition) (val_dataset toy_partition)
        (compile toy (create_model toy)) \<lparr>best = None, saved = None\<rparr>
      = Inr (5, \<lparr>best = Some 1, saved = Some 1\<rparr>,
             \<lparr>h_loss = [0, 0, 0, 0, 0], h_val_loss = [1, 2, 3, 4, 5],
              h_binary_accuracy = [0, 0, 0, 0, 0],
              h_val_binary_accuracy = [0, 0, 0, 0, 0]\<rparr>)
   \<and> al_loop toy 8 0 toy_start = Inr toy_start
   \<and> al_round toy 8 toy_start = Inr (toy_retrained\<lparr>model := 1\<rparr>)
   \<and> al_loop toy 8 (Suc 0) toy_start = Inr (toy_retrained\<lparr>model := 1\<rparr>)
   \<and> train_active_learning_models toy None toy_partition 0 8 =
        Inr (toy_start\<lparr>printed :=
               [StartingToTrain 8, Rule, TestSetEvaluation (0, 0, 3, 1), Rule]\<rparr>)
   \<and> sample_step toy 8 toy_start = Inr toy_sampled
   \<and> retrain_step toy toy_sampled = Inr toy_retrained
   \<and> saved (checkpoint toy_retrained) = Some 1
   \<and> saved (checkpoint (toy_retrained\<lparr>model := 1\<rparr>)) = Some 1
   \<and> fst (validate toy 1 (val_dataset toy_partition))
        = Min (set (val_losses (toy_retrained\<lparr>model := 1\<rparr>)))"
proof -
  have s: "al_start toy None toy_partition = Inr toy_start" by (rule toy_al_start)
  have f: "fit toy (train_dataset toy_partition) (val_dataset toy_partition)
        (compile toy (create_model toy)) \<lparr>best = None, saved = None\<rparr>
      = Inr (5, \<lparr>best = Some 1, saved = Some 1\<rparr>,
             \<lparr>h_loss = [0, 0, 0, 0, 0], h_val_loss = [1, 2, 3, 4, 5],
              h_binary_accuracy = [0, 0, 0, 0, 0],
              h_val_binary_accuracy = [0, 0, 0, 0, 0]\<rparr>)"
    by (simp add: fit_def toy_partition_nonempty toy_fit_first toy_sel)
  have z: "al_loop toy 8 0 toy_start = Inr toy_start" by simp
  have r: "al_round toy 8 toy_start = Inr (toy_retrained\<lparr>model := 1\<rparr>)" by (rule toy_round)
  have l: "al_loop toy 8 (Suc 0) toy_start = Inr (toy_retrained\<lparr>model := 1\<rparr>)"
    using toy_loop by simp
  note t = checkpoint_loaded_every_round[of toy None toy_partition toy_start 8 toy_start
      "toy_retrained\<lparr>model := 1\<rparr>" 0 "toy_retrained\<lparr>model := 1\<rparr>" 0
      "toy_start\<lparr>printed :=
         [StartingToTrain 8, Rule, TestSetEvaluation (0, 0, 3, 1), Rule]\<rparr>"]
  from t l have c1: "saved (checkpoint (toy_retrained\<lparr>model := 1\<rparr>)) = Some 1" by simp
  from t s z r have c2: "fst (validate toy 1 (val_dataset toy_partition))
        = Min (set (val_losses (toy_retrained\<lparr>model := 1\<rparr>)))"
    by simp
  from s f z r l c1 c2 toy_run_without_rounds toy_sample_step toy_retrain_step
    toy_fields(15)
  show ?thesis by blast
qed

text \<open>
  A run of the small classifier: the \<^verbatim>\<open>fit\<close> of the first round leaves the model
  trained for ten epochs, and the state after the round, which enters the second
  round, holds the model of the first epoch, read back from the file.
\<close>

theorem live_parameters_replaced_counterexample:
  "al_loop toy 8 1 toy_start = Inr (toy_retrained\<lparr>model := 1\<rparr>)
   \<and> sample_step toy 8 toy_start = Inr toy_sampled
   \<and> retrain_step toy toy_sampled = Inr toy_retrained
   \<and> model toy_retrained = 10
   \<and> compile toy (model (toy_retrained\<lparr>model := 1\<rparr>)) = 1"
  by (simp add: toy_round toy_sample_step toy_retrain_step toy_fields toy_sel)

text \<open>
  C3, as the code has it. With one round or more, wherever the function returns, the
  model it returns and evaluates on the test set in its last printed lines is the
  content of the checkpoint file; its validation loss is the least of all validation
  losses of the run, those of the first \<^verbatim>\<open>fit\<close> included. The function returns when
  the training, validation and test sets are not empty and the sampling size is within
  \<open>int64_max\<close>.
\<close>

theorem final_model_is_global_best:
  assumes "0 < num_iterations"
  shows "(train_active_learning_models K f0 p num_iterations S = Inr st \<longrightarrow>
      (\<exists>st0 out more. al_start K f0 p = Inr st0
         \<and> val_losses st = val_losses st0 @ more
         \<and> val_losses st \<noteq> []
         \<and> saved (checkpoint st) = Some (model st)
         \<and> fst (validate K (model st) (val_dataset p)) = Min (set (val_losses st))
         \<and> printed st =
             out @ [Rule, TestSetEvaluation (evaluate K (model st) (test_dataset p)), Rule]))
   \<and> (train_dataset p \<noteq> [] \<and> val_dataset p \<noteq> [] \<and> test_dataset p \<noteq> []
        \<and> int S \<le> int64_max \<longrightarrow>
        (\<exists>st_end. train_active_learning_models K f0 p num_iterations S = Inr st_end))"
proof -
  from assms obtain n where n: "num_iterations = Suc n" by (cases num_iterations) auto
  have a: "train_active_learning_models K f0 p num_iterations S = Inr st \<longrightarrow>
      (\<exists>st0 out more. al_start K f0 p = Inr st0
         \<and> val_losses st = val_losses st0 @ more
         \<and> val_losses st \<noteq> []
         \<and> saved (checkpoint st) = Some (model st)
         \<and> fst (validate K (model st) (val_dataset p)) = Min (set (val_losses st))
         \<and> printed st =
             out @ [Rule, TestSetEvaluation (evaluate K (model st) (test_dataset p)), Rule])"
  proof
    assume "train_active_learning_models K f0 p num_iterations S = Inr st"
    from run_Inr[OF this] obtain st0 st2 where
      s0: "al_start K f0 p = Inr st0" and l2: "al_loop K S num_iterations st0 = Inr st2"
      and s: "st = st2\<lparr>printed := printed st2 @
         [Rule, TestSetEvaluation (evaluate K (model st2) (test_dataset st2)), Rule]\<rparr>"
      by blast
    note a0 = al_start_Inr[OF s0]
    from l2 n obtain st1 where l1: "al_loop K S n st0 = Inr st1"
      and r: "al_round K S st1 = Inr st2"
      by (auto simp only: al_loop_snoc split: sum.splits)
    from al_round_inv[OF al_loop_inv[OF a0(9) l1] r] have
      i2: "al_inv K st2" and sv: "saved (checkpoint st2) = Some (model st2)" by simp_all
    from al_loop_fixed[OF l2] have
      fx: "val_dataset st2 = val_dataset p" "test_dataset st2 = test_dataset p"
      by (simp_all add: a0)
    from al_loop_val_losses[OF l2] obtain more where
      pre: "val_losses st2 = val_losses st0 @ more" by blast
    from al_inv_saved[OF i2] sv fx have best:
      "fst (validate K (model st2) (val_dataset p)) = Min (set (val_losses st2))" by auto
    have ne: "val_losses st2 \<noteq> []" using i2 by (simp add: al_inv_def)
    have "val_losses st = val_losses st0 @ more" using pre by (simp add: s)
    moreover have "val_losses st \<noteq> []" using ne by (simp add: s)
    moreover have "saved (checkpoint st) = Some (model st)" using sv by (simp add: s)
    moreover have "fst (validate K (model st) (val_dataset p)) = Min (set (val_losses st))"
      using best by (simp add: s)
    moreover have "printed st = printed st2 @
        [Rule, TestSetEvaluation (evaluate K (model st) (test_dataset p)), Rule]"
      using fx by (simp add: s)
    ultimately show "\<exists>st0 out more. al_start K f0 p = Inr st0
         \<and> val_losses st = val_losses st0 @ more
         \<and> val_losses st \<noteq> []
         \<and> saved (checkpoint st) = Some (model st)
         \<and> fst (validate K (model st) (val_dataset p)) = Min (set (val_losses st))
         \<and> printed st =
             out @ [Rule, TestSetEvaluation (evaluate K (model st) (test_dataset p)), Rule]"
      using s0 by blast
  qed
  have b: "train_dataset p \<noteq> [] \<and> val_dataset p \<noteq> [] \<and> test_dataset p \<noteq> []
        \<and> int S \<le> int64_max \<longrightarrow>
        (\<exists>st_end. train_active_learning_models K f0 p num_iterations S = Inr st_end)"
    using run_succeeds[of p S K f0 num_iterations] by blast
  from a b show ?thesis by blast
qed

lemma toy_run_one_round:
  "train_active_learning_models toy None toy_partition 1 8 =
     Inr (toy_retrained\<lparr>model := 1,
            printed :=
              [StartingToTrain 8, Rule, IncorrectlyClassified 3 1, SampleRatio (1 / 4) (3 / 4),
               StartingTraining 11, Rule, Rule, TestSetEvaluation (0, 0, 3, 1), Rule]\<rparr>)"
  by (simp add: train_active_learning_models_def toy_al_start toy_round model_evaluate_def
      toy_sel toy_fields)

theorem final_model_is_global_best_witness:
  "(0::nat) < 1
   \<and> train_dataset toy_partition \<noteq> [] \<and> val_dataset toy_partition \<noteq> []
   \<and> test_dataset toy_partition \<noteq> [] \<and> int 8 \<le> int64_max
   \<and> train_active_learning_models toy None toy_partition 1 8 =
       Inr (toy_retrained\<lparr>model := 1,
            printed :=
              [StartingToTrain 8, Rule, IncorrectlyClassified 3 1, SampleRatio (1 / 4) (3 / 4),
               StartingTraining 11, Rule, Rule, TestSetEvaluation (0, 0, 3, 1), Rule]\<rparr>)
   \<and> fst (validate toy 1 (val_dataset toy_partition)) = Min (set [1, 2, 3, 4, 5, 6, 7, 8, 9, 10])
   \<and> (\<exists>st_end. train_active_learning_models toy None toy_partition 1 8 = Inr st_end)"
proof -
  have h: "(0::nat) < 1" by simp
  have h2: "train_dataset toy_partition \<noteq> [] \<and> val_dataset toy_partition \<noteq> []
      \<and> test_dataset toy_partition \<noteq> [] \<and> int 8 \<le> int64_max"
    by (simp add: toy_partition_nonempty int64_max_def)
  note t = final_model_is_global_best[OF h, of toy None toy_partition 8
      "toy_retrained\<lparr>model := 1,
            printed :=
              [StartingToTrain 8, Rule, IncorrectlyClassified 3 1, SampleRatio (1 / 4) (3 / 4),
               StartingTraining 11, Rule, Rule, TestSetEvaluation (0, 0, 3, 1), Rule]\<rparr>"]
  from t toy_run_one_round have
    "fst (validate toy
       (model (toy_retrained\<lparr>model := 1,
            printed :=
              [StartingToTrain 8, Rule, IncorrectlyClassified 3 1, SampleRatio (1 / 4) (3 / 4),
               StartingTraining 11, Rule, Rule, TestSetEvaluation (0, 0, 3, 1), Rule]\<rparr>))
       (val_dataset toy_partition))
     = Min (set (val_losses (toy_retrained\<lparr>model := 1,
            printed :=
              [StartingToTrain 8, Rule, IncorrectlyClassified 3 1, SampleRatio (1 / 4) (3 / 4),
               StartingTraining 11, Rule, Rule, TestSetEvaluation (0, 0, 3, 1), Rule]\<rparr>)))"
    by blast
  then have c1: "fst (validate toy 1 (val_dataset toy_partition))
      = Min (set [1, 2, 3, 4, 5, 6, 7, 8, 9, 10])"
    by (simp add: toy_fields)
  from t h2 have c2: "\<exists>st_end. train_active_learning_models toy None toy_partition 1 8
      = Inr st_end" by blast
  from h h2 c1 c2 toy_run_one_round show ?thesis by blast
qed

text \<open>
  A run of the small classifier with no round at all: the model returned and evaluated
  is the one the first \<^verbatim>\<open>fit\<close> left after five epochs, with validation loss 5,
  while the least validation loss of the run is 1.
\<close>

theorem final_model_without_rounds_counterexample:
  "train_active_learning_models toy None toy_partition 0 8 =
     Inr (toy_start\<lparr>printed :=
            [StartingToTrain 8, Rule, TestSetEvaluation (0, 0, 3, 1), Rule]\<rparr>)
   \<and> model toy_start = 5
   \<and> fst (validate toy (model toy_start) (val_dataset toy_start)) = 5
   \<and> Min (set (val_losses toy_start)) = 1"
proof -
  have "fst (validate toy (model toy_start) (val_dataset toy_start)) = 5"
    by (simp add: toy_fields toy_sel)
  moreover have "Min (set (val_losses toy_start)) = 1" by (simp add: toy_fields)
  ultimately show ?thesis using toy_run_without_rounds toy_fields(6) by blast
qed

end
